theory Spec2Isabelle
  imports Main "HOL-Library.Char_ord" "HOL-Library.List_Lexorder" "HOL-Library.Monad_Syntax"
begin

section \<open>Values and paths\<close>

text \<open>
  The two programs modelled here are \<^verbatim>\<open>longrun-orchestrator/scripts/orchestrate.py\<close> and
  \<^verbatim>\<open>longrun-orchestrator/scripts/status.py\<close>. Python values that travel through
  \<^verbatim>\<open>json.dumps\<close> and \<^verbatim>\<open>json.loads\<close> are values of \<open>json\<close> (floats do not occur in
  anything the orchestrator writes and are left out). An object keeps its keys in
  insertion order, as a Python dict does.
\<close>

datatype json =
    JNull
  | JBool bool
  | JInt int
  | JStr string
  | JList "json list"
  | JObj "(string \<times> json) list"

text \<open>
  A \<^verbatim>\<open>pathlib.Path\<close> is the list of its components below the root. \<open>parts\<close> is how
  \<^verbatim>\<open>Path(s)\<close> reads a string (empty and \<^verbatim>\<open>.\<close> components vanish), \<open>joinpath\<close> is the
  \<^verbatim>\<open>/\<close> operator (an absolute right operand replaces the left one), \<open>path_name\<close> is
  \<^verbatim>\<open>.name\<close> and \<open>path_str\<close> is \<^verbatim>\<open>str(p)\<close> of an absolute path.
\<close>

type_synonym path = "string list"

fun split_on :: "char \<Rightarrow> string \<Rightarrow> string list" where
  "split_on sep [] = [[]]"
| "split_on sep (c # cs) =
     (if c = sep then [] # split_on sep cs
      else (case split_on sep cs of
              [] \<Rightarrow> [[c]]
            | w # ws \<Rightarrow> (c # w) # ws))"

definition parts :: "string \<Rightarrow> path" where
  "parts s = filter (\<lambda>c. c \<noteq> [] \<and> c \<noteq> ''.'') (split_on CHR ''/'' s)"

definition joinpath :: "path \<Rightarrow> string \<Rightarrow> path" where
  "joinpath p s = (if take 1 s = ''/'' then parts s else p @ parts s)"

definition path_name :: "path \<Rightarrow> string" where
  "path_name p = (case rev p of [] \<Rightarrow> [] | n # _ \<Rightarrow> n)"

definition path_str :: "path \<Rightarrow> string" where
  "path_str p = (if p = [] then ''/'' else concat (map (\<lambda>c. CHR ''/'' # c) p))"

text \<open>Python's \<^verbatim>\<open>str(n)\<close> of an integer, as the f-strings of the error messages use it.\<close>

definition digit :: "nat \<Rightarrow> char" where
  "digit d = ''0123456789'' ! (d mod 10)"

fun str_nat :: "nat \<Rightarrow> string" where
  "str_nat n = (if n < 10 then [digit n] else str_nat (n div 10) @ [digit n])"

declare str_nat.simps [simp del]

definition str_int :: "int \<Rightarrow> string" where
  "str_int i = (if i < 0 then CHR ''-'' # str_nat (nat (- i)) else str_nat (nat i))"

text \<open>
  \<^verbatim>\<open>str.strip()\<close> removes leading and trailing whitespace; \<open>is_space\<close> is
  \<^verbatim>\<open>str.isspace\<close> on the characters below 256.
\<close>

definition is_space :: "char \<Rightarrow> bool" where
  "is_space c = (of_char c \<in> {9, 10, 11, 12, 13, 28, 29, 30, 31, 32, 133, 160 :: nat})"

definition strip :: "string \<Rightarrow> string" where
  "strip s = rev (dropWhile is_space (rev (dropWhile is_space s)))"

text \<open>Truthiness of a value, as \<^verbatim>\<open>if x:\<close> tests it.\<close>

fun truthy :: "json \<Rightarrow> bool" where
  "truthy JNull = False"
| "truthy (JBool b) = b"
| "truthy (JInt i) = (i \<noteq> 0)"
| "truthy (JStr s) = (s \<noteq> [])"
| "truthy (JList l) = (l \<noteq> [])"
| "truthy (JObj kv) = (kv \<noteq> [])"

definition truthy_str :: "string option \<Rightarrow> bool" where
  "truthy_str x = (case x of None \<Rightarrow> False | Some s \<Rightarrow> s \<noteq> [])"

section \<open>Exceptions and the file system\<close>

text \<open>
  Every \<^verbatim>\<open>raise\<close> the two programs can reach is a value of \<open>exn\<close>.
  \<open>SystemExit code msg\<close> carries the process exit code and the text written to standard
  error: \<^verbatim>\<open>SystemExit("text")\<close> exits with code 1, \<^verbatim>\<open>ArgumentParser.error\<close> with code 2.
  \<open>Untyped\<close> stands for a state file whose fields have other JSON types than the
  dataclass declares: Python would build such an object unchecked, the typed record of
  this model cannot hold it.
\<close>

datatype exn =
    SystemExit int string
  | FileExistsError
  | NotADirectoryError
  | FileNotFoundError
  | JSONDecodeError
  | TypeError
  | AttributeError
  | Untyped

text \<open>
  A file is known by what \<^verbatim>\<open>json.loads\<close> makes of its text: \<open>Json_text j\<close> is a text
  that parses to \<open>j\<close> (in particular the text \<^verbatim>\<open>json.dumps(j, indent=2) + "\n"\<close>),
  \<open>Not_json\<close> a text on which \<^verbatim>\<open>json.loads\<close> raises (an empty or truncated file).
  Directories are listed in the order \<^verbatim>\<open>iterdir\<close> yields them. Faults of the
  operating system (permissions, a full disk) are not modelled.
\<close>

datatype content = Json_text json | Not_json

record filesystem =
  dirs :: "path list"
  files :: "path \<rightharpoonup> content"

definition is_dir :: "filesystem \<Rightarrow> path \<Rightarrow> bool" where
  "is_dir fs p = (p = [] \<or> p \<in> set (dirs fs))"

definition is_file :: "filesystem \<Rightarrow> path \<Rightarrow> bool" where
  "is_file fs p = (files fs p \<noteq> None)"

definition ancestors :: "path \<Rightarrow> path list" where
  "ancestors p = map (\<lambda>k. take k p) [1..<length p]"

text \<open>\<^verbatim>\<open>Path.mkdir(parents=True, exist_ok=e)\<close>.\<close>

definition mkdir :: "bool \<Rightarrow> path \<Rightarrow> filesystem \<Rightarrow> exn + filesystem" where
  "mkdir exist_ok p fs =
     (if is_dir fs p then (if exist_ok then Inr fs else Inl FileExistsError)
      else if is_file fs p then Inl FileExistsError
      else if list_ex (is_file fs) (ancestors p) then Inl NotADirectoryError
      else Inr (fs\<lparr>dirs := dirs fs @ filter (\<lambda>q. \<not> is_dir fs q) (ancestors p @ [p])\<rparr>))"

definition write_text :: "path \<Rightarrow> content \<Rightarrow> filesystem \<Rightarrow> filesystem" where
  "write_text p c fs = fs\<lparr>files := (files fs)(p \<mapsto> c)\<rparr>"

text \<open>\<^verbatim>\<open>Path.replace\<close>, that is \<^verbatim>\<open>os.replace\<close>: one rename.\<close>

definition replace :: "path \<Rightarrow> path \<Rightarrow> filesystem \<Rightarrow> filesystem" where
  "replace src dst fs = fs\<lparr>files := ((files fs)(dst := files fs src))(src := None)\<rparr>"

text \<open>
  \<^verbatim>\<open>path.with_suffix(path.suffix + ".tmp")\<close>: the sibling whose name has \<^verbatim>\<open>.tmp\<close>
  appended. (On the root path Python raises; \<open>write_json\<close> is only called on files of a
  run directory.)
\<close>

definition tmp_path :: "path \<Rightarrow> path" where
  "tmp_path p = butlast p @ [path_name p @ ''.tmp'']"

text \<open>
  \<open>write_json\<close>, operation by operation: \<^verbatim>\<open>write_text\<close> opens the temporary file
  (truncating it), fills it and closes it; \<^verbatim>\<open>replace\<close> renames it over the target.
  \<open>write_json_steps\<close> lists the file system after each of the three operations; any
  observer running beside the writer sees one of them, or the file system before.
\<close>

definition write_json_steps :: "path \<Rightarrow> json \<Rightarrow> filesystem \<Rightarrow> filesystem list" where
  "write_json_steps p obj fs =
     (let tmp = tmp_path p;
          opened = write_text tmp Not_json fs;
          written = write_text tmp (Json_text obj) opened
      in [opened, written, replace tmp p written])"

definition write_json :: "path \<Rightarrow> json \<Rightarrow> filesystem \<Rightarrow> filesystem" where
  "write_json p obj fs = replace (tmp_path p) p (write_text (tmp_path p) (Json_text obj) fs)"

section \<open>The run record\<close>

text \<open>The dataclass \<^verbatim>\<open>RunState\<close> of \<^verbatim>\<open>orchestrate.py\<close>, field for field.\<close>

record RunState =
  run_id :: string
  label :: string
  workspace :: string
  created_at :: string
  status :: string
  main_cmd :: string
  then_cmds :: "string list"
  main_pid :: "int option"
  main_rc :: "int option"
  then_rcs :: "int list option"
  error :: "string option"

definition nullable :: "('a \<Rightarrow> json) \<Rightarrow> 'a option \<Rightarrow> json" where
  "nullable f x = (case x of None \<Rightarrow> JNull | Some v \<Rightarrow> f v)"

text \<open>\<^verbatim>\<open>dataclasses.asdict(state)\<close>.\<close>

definition asdict :: "RunState \<Rightarrow> json" where
  "asdict s = JObj
     [(''run_id'', JStr (run_id s)),
      (''label'', JStr (label s)),
      (''workspace'', JStr (workspace s)),
      (''created_at'', JStr (created_at s)),
      (''status'', JStr (status s)),
      (''main_cmd'', JStr (main_cmd s)),
      (''then_cmds'', JList (map JStr (then_cmds s))),
      (''main_pid'', nullable JInt (main_pid s)),
      (''main_rc'', nullable JInt (main_rc s)),
      (''then_rcs'', nullable (\<lambda>l. JList (map JInt l)) (then_rcs s)),
      (''error'', nullable JStr (error s))]"

definition field_names :: "string list" where
  "field_names = [''run_id'', ''label'', ''workspace'', ''created_at'', ''status'',
     ''main_cmd'', ''then_cmds'', ''main_pid'', ''main_rc'', ''then_rcs'', ''error'']"

definition required_fields :: "string list" where
  "required_fields = [''run_id'', ''label'', ''workspace'', ''created_at'', ''status'',
     ''main_cmd'', ''then_cmds'']"

fun get_str :: "json \<Rightarrow> string option" where
  "get_str (JStr s) = Some s"
| "get_str _ = None"

fun get_int :: "json \<Rightarrow> int option" where
  "get_int (JInt i) = Some i"
| "get_int _ = None"

fun get_list :: "(json \<Rightarrow> 'a option) \<Rightarrow> json \<Rightarrow> 'a list option" where
  "get_list f (JList l) = those (map f l)"
| "get_list f _ = None"

text \<open>A field with default \<^verbatim>\<open>None\<close>: absent or \<^verbatim>\<open>null\<close> is \<open>None\<close>.\<close>

definition get_opt :: "(json \<Rightarrow> 'a option) \<Rightarrow> json option \<Rightarrow> 'a option option" where
  "get_opt f v =
     (case v of
        None \<Rightarrow> Some None
      | Some JNull \<Rightarrow> Some None
      | Some j \<Rightarrow> map_option Some (f j))"

definition typed :: "(string \<rightharpoonup> json) \<Rightarrow> RunState option" where
  "typed d = do {
     a \<leftarrow> Option.bind (d ''run_id'') get_str;
     b \<leftarrow> Option.bind (d ''label'') get_str;
     c \<leftarrow> Option.bind (d ''workspace'') get_str;
     e \<leftarrow> Option.bind (d ''created_at'') get_str;
     f \<leftarrow> Option.bind (d ''status'') get_str;
     g \<leftarrow> Option.bind (d ''main_cmd'') get_str;
     t \<leftarrow> Option.bind (d ''then_cmds'') (get_list get_str);
     mp \<leftarrow> get_opt get_int (d ''main_pid'');
     mr \<leftarrow> get_opt get_int (d ''main_rc'');
     tr \<leftarrow> get_opt (get_list get_int) (d ''then_rcs'');
     er \<leftarrow> get_opt get_str (d ''error'');
     Some \<lparr>run_id = a, label = b, workspace = c, created_at = e, status = f,
            main_cmd = g, then_cmds = t, main_pid = mp, main_rc = mr, then_rcs = tr,
            error = er\<rparr>
   }"

text \<open>
  \<^verbatim>\<open>RunState(**d)\<close>: a \<^verbatim>\<open>TypeError\<close> when \<open>d\<close> is no dict, has a key that is no
  field, or lacks a field without default.
\<close>

definition from_dict :: "json \<Rightarrow> exn + RunState" where
  "from_dict j =
     (case j of
        JObj kv \<Rightarrow>
          if \<not> list_all (\<lambda>k. k \<in> set field_names) (map fst kv) then Inl TypeError
          else if \<not> list_all (\<lambda>k. map_of kv k \<noteq> None) required_fields then Inl TypeError
          else (case typed (map_of kv) of None \<Rightarrow> Inl Untyped | Some s \<Rightarrow> Inr s)
      | _ \<Rightarrow> Inl TypeError)"

section \<open>The process and its surroundings\<close>

text \<open>
  What a process finds around it and cannot compute is a field of \<open>host\<close>:
  \<open>git_toplevel\<close> is the standard output of \<^verbatim>\<open>git rev-parse --show-toplevel\<close>, or
  \<open>None\<close> when the call raises (no repository, no git); \<open>resolve\<close> is
  \<^verbatim>\<open>Path(s).resolve()\<close>; \<open>LONGRUN_RUN_DIR\<close> the environment variable; \<open>now_tag\<close> and
  \<open>now_iso\<close> the two readings of the clock; \<open>shell k cmd\<close> the exit status of \<open>cmd\<close>
  when it is the \<open>k\<close>-th command this process runs through \<^verbatim>\<open>bash -lc\<close>, counted
  from 0 (a negative status is a signal); \<open>executable\<close>, \<open>script\<close> and \<open>popen_pid\<close>
  serve the detached launch. The commands are taken not to touch the run directory.
\<close>

record host =
  git_toplevel :: "string option"
  resolve :: "string \<Rightarrow> path"
  LONGRUN_RUN_DIR :: "string option"
  now_tag :: string
  now_iso :: string
  shell :: "nat \<Rightarrow> string \<Rightarrow> int"
  executable :: string
  script :: string
  popen_pid :: int

text \<open>The parsed command lines of the two programs.\<close>

record orchestrate_args =
  arg_label :: string
  arg_workspace :: "string option"
  arg_cmd :: string
  arg_then :: "string list"
  arg_detach :: bool

record status_args =
  opt_workspace :: "string option"
  opt_run_id :: "string option"
  opt_latest :: bool
  opt_json :: bool

text \<open>
  A process is the file system it works on, the events it has caused so far, in order
  (\<open>Ran cmd log rc\<close>: a command has finished; \<open>Persisted p j\<close>: a \<open>write_json\<close> has
  renamed its file into place; \<open>Spawned argv run_dir log\<close>: the background process was
  launched), and what it has printed. A process that is killed leaves the world as it
  was after some prefix of its events.
\<close>

datatype event =
    Ran string path int
  | Persisted path json
  | Spawned "string list" string path

datatype line = Text string | Dumped json | Field string json

record proc =
  fs :: filesystem
  trace :: "event list"
  stdout :: "line list"

datatype outcome = Returned int | Raised exn

text \<open>
  The exit code of the process: \<^verbatim>\<open>raise SystemExit(main())\<close> passes the returned
  number on; an uncaught exception ends the interpreter with a traceback and code 1.
\<close>

fun exit_code :: "outcome \<Rightarrow> int" where
  "exit_code (Returned n) = n"
| "exit_code (Raised (SystemExit n msg)) = n"
| "exit_code (Raised e) = 1"

fun is_ran :: "event \<Rightarrow> bool" where
  "is_ran (Ran cmd log rc) = True"
| "is_ran e = False"

definition not_in_repo :: string where
  "not_in_repo = ''Not in a git repo. Pass --workspace to choose the workspace root explicitly.''"

definition resolve_workspace_root :: "host \<Rightarrow> string option \<Rightarrow> exn + path" where
  "resolve_workspace_root h explicit =
     (if truthy_str explicit then Inr (resolve h (case explicit of Some s \<Rightarrow> s | None \<Rightarrow> []))
      else (case git_toplevel h of
              Some out \<Rightarrow>
                if strip out \<noteq> [] then Inr (resolve h (strip out))
                else Inl (SystemExit 1 not_in_repo)
            | None \<Rightarrow> Inl (SystemExit 1 not_in_repo)))"

definition make_run_dir :: "host \<Rightarrow> path \<Rightarrow> string \<Rightarrow> filesystem \<Rightarrow> exn + path \<times> filesystem" where
  "make_run_dir h root lbl fsys =
     (let rid = lbl @ ''_'' @ now_tag h;
          run_dir = joinpath (root @ [''.codex'', ''longrun'']) rid
      in case mkdir False run_dir fsys of
           Inl e \<Rightarrow> Inl e
         | Inr fsys' \<Rightarrow> Inr (run_dir, fsys'))"

definition run_shell :: "host \<Rightarrow> string \<Rightarrow> path \<Rightarrow> proc \<Rightarrow> int \<times> proc" where
  "run_shell h cmd stdout_path p =
     (let rc = shell h (length (filter is_ran (trace p))) cmd
      in (rc, p\<lparr>trace := trace p @ [Ran cmd stdout_path rc]\<rparr>))"

text \<open>A call of \<open>write_json\<close> by the process: the file system changes, the event is logged.\<close>

definition do_write_json :: "path \<Rightarrow> json \<Rightarrow> proc \<Rightarrow> proc" where
  "do_write_json p obj pr = pr\<lparr>fs := write_json p obj (fs pr), trace := trace pr @ [Persisted p obj]\<rparr>"

section \<open>The orchestrator\<close>

text \<open>
  \<^verbatim>\<open>main\<close> of \<^verbatim>\<open>orchestrate.py\<close> in four parts. \<open>prepare\<close> is lines 118 to 142: the
  workspace root, the run directory (the one named by \<^verbatim>\<open>LONGRUN_RUN_DIR\<close> when that is
  set and not empty, a new one otherwise), the new record with status \<^verbatim>\<open>created\<close>, and
  its first write. It gives the record, the workspace root, the run directory and the
  process after the write.
\<close>

definition new_state :: "host \<Rightarrow> orchestrate_args \<Rightarrow> path \<Rightarrow> path \<Rightarrow> RunState" where
  "new_state h a ws run_dir =
     \<lparr>run_id = path_name run_dir, label = arg_label a, workspace = path_str ws,
      created_at = now_iso h, status = ''created'', main_cmd = arg_cmd a,
      then_cmds = arg_then a, main_pid = None, main_rc = None, then_rcs = None,
      error = None\<rparr>"

definition run_dir_of :: "host \<Rightarrow> orchestrate_args \<Rightarrow> path \<Rightarrow> filesystem \<Rightarrow> exn + path \<times> filesystem" where
  "run_dir_of h a ws fsys =
     (case LONGRUN_RUN_DIR h of
        None \<Rightarrow> make_run_dir h ws (arg_label a) fsys
      | Some env_run_dir \<Rightarrow>
          if env_run_dir = [] then make_run_dir h ws (arg_label a) fsys
          else (case mkdir True (resolve h env_run_dir) fsys of
                  Inl e \<Rightarrow> Inl e
                | Inr fsys' \<Rightarrow> Inr (resolve h env_run_dir, fsys')))"

definition prepare :: "host \<Rightarrow> orchestrate_args \<Rightarrow> filesystem \<Rightarrow> exn + RunState \<times> path \<times> path \<times> proc" where
  "prepare h a fsys =
     (case resolve_workspace_root h (arg_workspace a) of
        Inl e \<Rightarrow> Inl e
      | Inr ws \<Rightarrow>
          (case run_dir_of h a ws fsys of
             Inl e \<Rightarrow> Inl e
           | Inr (run_dir, fsys') \<Rightarrow>
               Inr (new_state h a ws run_dir, ws, run_dir,
                    do_write_json (run_dir @ [''state.json''])
                      (asdict (new_state h a ws run_dir))
                      \<lparr>fs = fsys', trace = [], stdout = []\<rparr>)))"

text \<open>Lines 144 to 178: the detached launch.\<close>

definition detach :: "host \<Rightarrow> orchestrate_args \<Rightarrow> RunState \<Rightarrow> path \<Rightarrow> path \<Rightarrow> proc \<Rightarrow> outcome \<times> proc" where
  "detach h a state ws run_dir p =
     (let argv = [executable h, script h, ''--label'', arg_label a, ''--workspace'',
                  path_str ws, ''--cmd'', arg_cmd a]
                 @ concat (map (\<lambda>t. [''--then'', t]) (arg_then a));
          p1 = p\<lparr>trace := trace p @ [Spawned argv (path_str run_dir) (run_dir @ [''orchestrator.log''])]\<rparr>;
          p2 = do_write_json (run_dir @ [''detached.json''])
                 (JObj [(''orchestrator_pid'', JInt (popen_pid h))]) p1
      in (Returned 0, p2\<lparr>stdout := stdout p2 @ [Text (run_id state)]\<rparr>))"

text \<open>Lines 181 to 183: \<^verbatim>\<open>RunState(**json.loads(state_path.read_text()))\<close>.\<close>

definition reload :: "path \<Rightarrow> filesystem \<Rightarrow> exn + RunState" where
  "reload state_path fsys =
     (case files fsys state_path of
        None \<Rightarrow> Inl FileNotFoundError
      | Some Not_json \<Rightarrow> Inl JSONDecodeError
      | Some (Json_text j) \<Rightarrow> from_dict j)"

text \<open>
  Lines 198 to 213: the loop over the follow-ups, with \<open>i\<close> the counter of
  \<^verbatim>\<open>enumerate(..., start=1)\<close> and \<open>rcs\<close> the local list \<^verbatim>\<open>then_rcs\<close>; the empty list of
  remaining commands is the code after the loop.
\<close>

fun followups :: "host \<Rightarrow> path \<Rightarrow> path \<Rightarrow> nat \<Rightarrow> string list \<Rightarrow> int list \<Rightarrow> RunState \<Rightarrow> proc \<Rightarrow> outcome \<times> proc" where
  "followups h state_path then_log i [] rcs state p =
     (Returned 0,
      do_write_json state_path
        (asdict (state\<lparr>then_rcs := Some rcs, status := ''completed''\<rparr>)) p)"
| "followups h state_path then_log i (cmd # cmds) rcs state p =
     (case run_shell h cmd then_log p of
        (rc, p') \<Rightarrow>
          if rc \<noteq> 0 then
            (Returned 1,
             do_write_json state_path
               (asdict (state\<lparr>status := ''failed'', then_rcs := Some (rcs @ [rc]),
                  error := Some (''follow-up failed at step '' @ str_nat i @ '' rc='' @ str_int rc)\<rparr>))
               p')
          else followups h state_path then_log (Suc i) cmds (rcs @ [rc]) state p')"

text \<open>Lines 185 to 213: the non-detached execution path on the record \<open>state\<close>.\<close>

definition run_chain :: "host \<Rightarrow> path \<Rightarrow> RunState \<Rightarrow> proc \<Rightarrow> outcome \<times> proc" where
  "run_chain h run_dir state p =
     (let state_path = run_dir @ [''state.json''];
          running = state\<lparr>status := ''running''\<rparr>
      in case run_shell h (main_cmd running) (run_dir @ [''main.log''])
                (do_write_json state_path (asdict running) p) of
           (rc, p') \<Rightarrow>
             if rc \<noteq> 0 then
               (Returned 1,
                do_write_json state_path
                  (asdict (running\<lparr>main_rc := Some rc, status := ''failed'',
                     error := Some (''main command failed with rc='' @ str_int rc)\<rparr>))
                  p')
             else followups h state_path (run_dir @ [''then.log'']) 1 (then_cmds running) []
                    (running\<lparr>main_rc := Some rc\<rparr>) p')"

definition reattaching :: "host \<Rightarrow> bool" where
  "reattaching h = truthy_str (LONGRUN_RUN_DIR h)"

definition main_orchestrate :: "host \<Rightarrow> orchestrate_args \<Rightarrow> filesystem \<Rightarrow> outcome \<times> proc" where
  "main_orchestrate h a fsys =
     (case prepare h a fsys of
        Inl e \<Rightarrow> (Raised e, \<lparr>fs = fsys, trace = [], stdout = []\<rparr>)
      | Inr (state, ws, run_dir, p) \<Rightarrow>
          if arg_detach a then detach h a state ws run_dir p
          else if reattaching h then
            (case reload (run_dir @ [''state.json'']) (fs p) of
               Inl e \<Rightarrow> (Raised e, p)
             | Inr loaded \<Rightarrow> run_chain h run_dir loaded p)
          else run_chain h run_dir state p)"

section \<open>The status reporter\<close>

text \<open>\<^verbatim>\<open>latest_run_dir\<close> of \<^verbatim>\<open>status.py\<close>.\<close>

definition iterdir :: "filesystem \<Rightarrow> path \<Rightarrow> path list" where
  "iterdir fsys base = filter (\<lambda>p. p \<noteq> [] \<and> butlast p = base) (dirs fsys)"

definition latest_run_dir :: "filesystem \<Rightarrow> path \<Rightarrow> path option" where
  "latest_run_dir fsys ws =
     (let base = ws @ [''.codex'', ''longrun'']
      in if \<not> is_dir fsys base then None
         else (case rev (sort_key path_name (iterdir fsys base)) of
                 [] \<Rightarrow> None
               | d # _ \<Rightarrow> Some d))"

text \<open>
  The report on a loaded state: \<^verbatim>\<open>state.get\<close> exists on a dict only; \<open>Field k v\<close> is the
  line \<^verbatim>\<open>k: v\<close> with \<open>v\<close> printed by \<^verbatim>\<open>str\<close>, \<open>Dumped j\<close> the line \<^verbatim>\<open>json.dumps(j)\<close>.
\<close>

definition dict_get :: "(string \<times> json) list \<Rightarrow> string \<Rightarrow> json" where
  "dict_get kv k = (case map_of kv k of None \<Rightarrow> JNull | Some v \<Rightarrow> v)"

definition report :: "path \<Rightarrow> json \<Rightarrow> outcome \<times> line list" where
  "report run_dir state =
     (case state of
        JObj kv \<Rightarrow>
          (Returned 0,
           [Text (''run_id: '' @ path_name run_dir),
            Field ''label'' (dict_get kv ''label''),
            Field ''status'' (dict_get kv ''status'')]
           @ (if dict_get kv ''main_rc'' \<noteq> JNull then [Field ''main_rc'' (dict_get kv ''main_rc'')] else [])
           @ (if truthy (dict_get kv ''error'') then [Field ''error'' (dict_get kv ''error'')] else [])
           @ [Text ''logs: main.log / then.log / orchestrator.log''])
      | _ \<Rightarrow> (Raised AttributeError, []))"

definition show_run :: "status_args \<Rightarrow> filesystem \<Rightarrow> path option \<Rightarrow> outcome \<times> line list" where
  "show_run a fsys run_dir =
     (case run_dir of
        None \<Rightarrow> (Returned 1, [Text ''(no runs found)''])
      | Some d \<Rightarrow>
          if \<not> is_dir fsys d then (Returned 1, [Text ''(no runs found)''])
          else (case files fsys (d @ [''state.json'']) of
                  None \<Rightarrow> (Returned 1, [Text (''(missing state.json in '' @ path_str d @ '')'')])
                | Some Not_json \<Rightarrow> (Raised JSONDecodeError, [])
                | Some (Json_text state) \<Rightarrow>
                    if opt_json a then (Returned 0, [Dumped state])
                    else report d state))"

definition main_status :: "host \<Rightarrow> status_args \<Rightarrow> filesystem \<Rightarrow> outcome \<times> line list" where
  "main_status h a fsys =
     (case resolve_workspace_root h (opt_workspace a) of
        Inl e \<Rightarrow> (Raised e, [])
      | Inr ws \<Rightarrow>
          if opt_latest a then show_run a fsys (latest_run_dir fsys ws)
          else if truthy_str (opt_run_id a) then
            show_run a fsys
              (Some (joinpath (ws @ [''.codex'', ''longrun''])
                 (case opt_run_id a of Some r \<Rightarrow> r | None \<Rightarrow> [])))
          else (Raised (SystemExit 2 ''Provide --latest or --run-id''), []))"

section \<open>Observing a run\<close>

text \<open>
  What an observer can tell from the first events of a run: \<open>followup_codes lg t\<close> are
  the exit codes of the commands that have finished with log file \<open>lg\<close>, in order;
  \<open>last_persisted sp t\<close> is the document most recently renamed into place at \<open>sp\<close>, and
  \<open>persisted_state sp t\<close> the record a reader builds from it.
\<close>

fun followup_codes :: "path \<Rightarrow> event list \<Rightarrow> int list" where
  "followup_codes lg [] = []"
| "followup_codes lg (Ran cmd l rc # t) =
     (if l = lg then rc # followup_codes lg t else followup_codes lg t)"
| "followup_codes lg (e # t) = followup_codes lg t"

fun persisted_at :: "path \<Rightarrow> event \<Rightarrow> json option" where
  "persisted_at sp (Persisted q j) = (if q = sp then Some j else None)"
| "persisted_at sp e = None"

fun last_persisted :: "path \<Rightarrow> event list \<Rightarrow> json option" where
  "last_persisted sp [] = None"
| "last_persisted sp (e # t) =
     (case last_persisted sp t of
        Some j \<Rightarrow> Some j
      | None \<Rightarrow> persisted_at sp e)"

definition persisted_state :: "path \<Rightarrow> event list \<Rightarrow> RunState option" where
  "persisted_state sp t =
     (case last_persisted sp t of
        None \<Rightarrow> None
      | Some j \<Rightarrow> (case from_dict j of Inl e \<Rightarrow> None | Inr s \<Rightarrow> Some s))"

section \<open>A worked example\<close>

text \<open>
  A workspace \<^verbatim>\<open>/w\<close> with no runs yet, a host whose shell gives \<^verbatim>\<open>exit n\<close> the status
  \<open>n\<close> for the two commands used below and 0 to every other command, and the command
  line \<^verbatim>\<open>--label job --workspace /w --cmd <cmd> --then <t1> --then <t2> ...\<close>.
\<close>

definition example_host :: host where
  "example_host =
     \<lparr>git_toplevel = None, resolve = parts, LONGRUN_RUN_DIR = None,
      now_tag = ''20240101_000000'', now_iso = ''2024-01-01T00:00:00'',
      shell = (\<lambda>k cmd. if cmd = ''exit 5'' then 5 else if cmd = ''exit 2'' then 2 else 0),
      executable = ''/usr/bin/python3'', script = ''/w/orchestrate.py'', popen_pid = 4242\<rparr>"

definition example_fs :: filesystem where
  "example_fs = \<lparr>dirs = [[''w'']], files = Map.empty\<rparr>"

definition example_args :: "string \<Rightarrow> string list \<Rightarrow> orchestrate_args" where
  "example_args cmd thens =
     \<lparr>arg_label = ''job'', arg_workspace = Some ''/w'', arg_cmd = cmd, arg_then = thens,
      arg_detach = False\<rparr>"

definition example_run_dir :: path where
  "example_run_dir = [''w'', ''.codex'', ''longrun'', ''job_20240101_000000'']"

definition example_state :: "string \<Rightarrow> string list \<Rightarrow> RunState" where
  "example_state cmd thens =
     \<lparr>run_id = ''job_20240101_000000'', label = ''job'', workspace = ''/w'',
      created_at = ''2024-01-01T00:00:00'', status = ''created'', main_cmd = cmd,
      then_cmds = thens, main_pid = None, main_rc = None, then_rcs = None, error = None\<rparr>"

definition example_prepared :: "string \<Rightarrow> string list \<Rightarrow> proc" where
  "example_prepared cmd thens =
     do_write_json (example_run_dir @ [''state.json'']) (asdict (example_state cmd thens))
       \<lparr>fs = \<lparr>dirs = [[''w''], [''w'', ''.codex''], [''w'', ''.codex'', ''longrun''],
                      example_run_dir],
              files = Map.empty\<rparr>,
        trace = [], stdout = []\<rparr>"

text \<open>
  The same run launched with \<^verbatim>\<open>--detach\<close>, and the host of the background worker it
  spawns, which starts seven seconds later with \<^verbatim>\<open>LONGRUN_RUN_DIR\<close> set;
  \<open>example_detached_fs\<close> is the file system the launch leaves, \<open>example_done_fs\<close> the one
  a foreground run of \<^verbatim>\<open>true\<close> leaves. \<open>example_corrupt_fs\<close> holds a run directory whose
  \<^verbatim>\<open>state.json\<close> is an empty file, and \<open>two_runs_fs\<close> two runs: label \<^verbatim>\<open>b\<close> started
  in 2024 and label \<^verbatim>\<open>a\<close> started a year later.
\<close>

definition example_worker_host :: host where
  "example_worker_host =
     example_host\<lparr>LONGRUN_RUN_DIR := Some ''/w/.codex/longrun/job_20240101_000000'',
                  now_iso := ''2024-01-01T00:00:07''\<rparr>"

definition example_detached_fs :: filesystem where
  "example_detached_fs =
     fs (snd (main_orchestrate example_host ((example_args ''true'' [])\<lparr>arg_detach := True\<rparr>) example_fs))"

definition example_status_args :: "string option \<Rightarrow> bool \<Rightarrow> status_args" where
  "example_status_args rid latest =
     \<lparr>opt_workspace = Some ''/w'', opt_run_id = rid, opt_latest = latest, opt_json = False\<rparr>"

definition example_done_fs :: filesystem where
  "example_done_fs = fs (snd (main_orchestrate example_host (example_args ''true'' []) example_fs))"

definition example_corrupt_fs :: filesystem where
  "example_corrupt_fs =
     \<lparr>dirs = [[''w''], [''w'', ''.codex''], [''w'', ''.codex'', ''longrun''], example_run_dir],
      files = [example_run_dir @ [''state.json''] \<mapsto> Not_json]\<rparr>"

definition two_runs_fs :: filesystem where
  "two_runs_fs =
     \<lparr>dirs = [[''w''], [''w'', ''.codex''], [''w'', ''.codex'', ''longrun''],
              [''w'', ''.codex'', ''longrun'', ''b_20240101_000000''],
              [''w'', ''.codex'', ''longrun'', ''a_20250101_000000'']],
      files = Map.empty\<rparr>"

section \<open>Basic facts\<close>

lemma those_str: "those (map (get_str \<circ> JStr) l) = Some l"
  by (induction l) simp_all
lemma those_int: "those (map (get_int \<circ> JInt) l) = Some l"
  by (induction l) simp_all
lemma get_opt_int: "get_opt get_int (Some (nullable JInt x)) = Some x"
  by (cases x) (simp_all add: get_opt_def nullable_def)
lemma get_opt_str: "get_opt get_str (Some (nullable JStr x)) = Some x"
  by (cases x) (simp_all add: get_opt_def nullable_def)
lemma get_opt_ints: "get_opt (get_list get_int) (Some (nullable (\<lambda>l. JList (map JInt l)) x)) = Some x"
  by (cases x) (simp_all add: get_opt_def nullable_def those_int)
lemma from_dict_asdict: "from_dict (asdict s) = Inr s"
  unfolding from_dict_def asdict_def
  by (simp add: typed_def those_str get_opt_int get_opt_str get_opt_ints field_names_def required_fields_def)

lemma tmp_path_neq: "tmp_path p \<noteq> p"
proof (cases p rule: rev_cases)
  case Nil
  then show ?thesis by (simp add: tmp_path_def)
next
  case (snoc ys y)
  then show ?thesis by (simp add: tmp_path_def path_name_def)
qed

lemma tmp_path_sibling: "butlast (tmp_path p) = butlast p"
  by (simp add: tmp_path_def)

lemma files_write_json: "files (write_json p obj fsys) = ((files fsys)(p \<mapsto> Json_text obj))(tmp_path p := None)"
  using tmp_path_neq[of p] by (auto simp: write_json_def replace_def write_text_def fun_eq_iff)

lemma dirs_write_json: "dirs (write_json p obj fsys) = dirs fsys"
  by (simp add: write_json_def replace_def write_text_def)

lemma reload_write_json: "reload p (write_json p (asdict s) fsys) = Inr s"
  using tmp_path_neq[of p] by (simp add: reload_def files_write_json from_dict_asdict)

lemma trace_do_write_json: "trace (do_write_json sp obj p) = trace p @ [Persisted sp obj]"
  by (simp add: do_write_json_def)
lemma fs_do_write_json: "fs (do_write_json sp obj p) = write_json sp obj (fs p)"
  by (simp add: do_write_json_def)
lemma stdout_do_write_json: "stdout (do_write_json sp obj p) = stdout p"
  by (simp add: do_write_json_def)

lemma followups_all_ok:
  "length (filter is_ran (trace p)) = k \<Longrightarrow>
   (\<And>j. j < length cmds \<Longrightarrow> shell h (k + j) (cmds ! j) = 0) \<Longrightarrow>
   followups h sp lg i cmds rcs st p =
     (Returned 0,
      do_write_json sp (asdict (st\<lparr>then_rcs := Some (rcs @ replicate (length cmds) 0), status := ''completed''\<rparr>))
        (p\<lparr>trace := trace p @ map (\<lambda>c. Ran c lg 0) cmds\<rparr>))"
proof (induction cmds arbitrary: p k i rcs)
  case Nil
  then show ?case by simp
next
  case (Cons c cs)
  have c0: "shell h k c = 0" using Cons.prems(2)[of 0] by simp
  have rest: "\<And>j. j < length cs \<Longrightarrow> shell h (Suc k + j) (cs ! j) = 0"
    using Cons.prems(2)[of "Suc _"] by simp
  have cnt: "length (filter is_ran (trace (p\<lparr>trace := trace p @ [Ran c lg 0]\<rparr>))) = Suc k"
    using Cons.prems(1) by simp
  show ?case
    using Cons.IH[OF cnt rest, of "Suc i" "rcs @ [0]"] c0 Cons.prems(1)
    by (simp add: run_shell_def replicate_app_Cons_same)
qed

lemma followups_fail:
  "length (filter is_ran (trace p)) = k \<Longrightarrow> m < length cmds \<Longrightarrow>
   (\<And>j. j < m \<Longrightarrow> shell h (k + j) (cmds ! j) = 0) \<Longrightarrow>
   shell h (k + m) (cmds ! m) = c \<Longrightarrow> c \<noteq> 0 \<Longrightarrow>
   followups h sp lg i cmds rcs st p =
     (Returned 1,
      do_write_json sp
        (asdict (st\<lparr>status := ''failed'', then_rcs := Some (rcs @ replicate m 0 @ [c]),
           error := Some (''follow-up failed at step '' @ str_nat (i + m) @ '' rc='' @ str_int c)\<rparr>))
        (p\<lparr>trace := trace p @ map (\<lambda>c. Ran c lg 0) (take m cmds) @ [Ran (cmds ! m) lg c]\<rparr>))"
proof (induction cmds arbitrary: p k i rcs m)
  case Nil
  then show ?case by simp
next
  case (Cons x xs)
  show ?case
  proof (cases m)
    case 0
    then show ?thesis using Cons.prems by (simp add: run_shell_def)
  next
    case (Suc m')
    have x0: "shell h k x = 0" using Cons.prems(3)[of 0] Suc by simp
    have rest: "\<And>j. j < m' \<Longrightarrow> shell h (Suc k + j) (xs ! j) = 0"
      using Cons.prems(3)[of "Suc _"] Suc by simp
    have cnt: "length (filter is_ran (trace (p\<lparr>trace := trace p @ [Ran x lg 0]\<rparr>))) = Suc k"
      using Cons.prems(1) by simp
    have lt: "m' < length xs" using Cons.prems(2) Suc by simp
    have cm: "shell h (Suc k + m') (xs ! m') = c" using Cons.prems(4) Suc by simp
    show ?thesis
      using Cons.IH[OF cnt lt rest cm Cons.prems(5), of "Suc i" "rcs @ [0]"] x0 Cons.prems(1) Suc
      by (simp add: run_shell_def replicate_app_Cons_same)
  qed
qed


lemma prepare_ok:
  assumes "prepare h a fsys = Inr (st, ws, rd, p)"
  shows "st = new_state h a ws rd"
    and "trace p = [Persisted (rd @ [''state.json'']) (asdict st)]"
    and "stdout p = []"
    and "reload (rd @ [''state.json'']) (fs p) = Inr st"
  using assms
  by (auto simp: prepare_def do_write_json_def reload_write_json split: sum.splits prod.splits)

lemma main_is_run_chain:
  assumes "prepare h a fsys = Inr (st, ws, rd, p)" and "\<not> arg_detach a"
  shows "main_orchestrate h a fsys = run_chain h rd st p"
  using assms prepare_ok(4)[OF assms(1)] by (simp add: main_orchestrate_def)

lemma example_prepare:
  "prepare example_host (example_args cmd thens) example_fs =
     Inr (example_state cmd thens, [''w''], example_run_dir, example_prepared cmd thens)"
  by (simp add: prepare_def resolve_workspace_root_def truthy_str_def example_host_def example_args_def
      example_fs_def example_run_dir_def example_state_def new_state_def run_dir_of_def make_run_dir_def
      mkdir_def is_dir_def is_file_def ancestors_def joinpath_def parts_def path_name_def path_str_def
      example_prepared_def upt_rec Let_def)

lemma example_shell:
  "shell example_host k cmd = (if cmd = ''exit 5'' then 5 else if cmd = ''exit 2'' then 2 else 0)"
  by (simp add: example_host_def)

lemma str_int_digit: "0 \<le> i \<Longrightarrow> i < 10 \<Longrightarrow> str_int i = [digit (nat i)]"
  by (simp add: str_int_def str_nat.simps)

lemma str_nat_digit: "n < 10 \<Longrightarrow> str_nat n = [digit n]"
  by (simp add: str_nat.simps)

lemma run_chain_main_fail:
  assumes "filter is_ran (trace p) = []" and "shell h 0 (main_cmd st) = c" and "c \<noteq> 0"
  shows "run_chain h rd st p =
     (Returned 1,
      do_write_json (rd @ [''state.json''])
        (asdict (st\<lparr>main_rc := Some c, status := ''failed'',
           error := Some (''main command failed with rc='' @ str_int c)\<rparr>))
        (p\<lparr>trace := trace p @ [Persisted (rd @ [''state.json'']) (asdict (st\<lparr>status := ''running''\<rparr>)),
                                 Ran (main_cmd st) (rd @ [''main.log'']) c],
           fs := write_json (rd @ [''state.json'']) (asdict (st\<lparr>status := ''running''\<rparr>)) (fs p)\<rparr>))"
  using assms by (cases st) (simp add: run_chain_def run_shell_def do_write_json_def Let_def)

lemma trace_run_shell:
  "trace (snd (run_shell h cmd lg p)) = trace p @ [Ran cmd lg (shell h (length (filter is_ran (trace p))) cmd)]"
  by (simp add: run_shell_def Let_def)

lemma fs_run_shell: "fs (snd (run_shell h cmd lg p)) = fs p"
  by (simp add: run_shell_def Let_def)

lemma run_chain_main_ok:
  assumes "filter is_ran (trace p) = []" and "shell h 0 (main_cmd st) = 0"
  shows "run_chain h rd st p =
     followups h (rd @ [''state.json'']) (rd @ [''then.log'']) 1 (then_cmds st) []
       (st\<lparr>status := ''running'', main_rc := Some 0\<rparr>)
       (snd (run_shell h (main_cmd st) (rd @ [''main.log''])
          (do_write_json (rd @ [''state.json'']) (asdict (st\<lparr>status := ''running''\<rparr>)) p)))"
  using assms by (simp add: run_chain_def run_shell_def do_write_json_def Let_def)

lemma followups_shape:
  "\<exists>m codes final.
     m \<le> length cmds \<and> length codes = m \<and>
     followups h sp lg i cmds rcs st p =
       (Returned (if status final = ''completed'' then 0 else 1),
        do_write_json sp (asdict final)
          (p\<lparr>trace := trace p @ map (\<lambda>(c, r). Ran c lg r) (zip (take m cmds) codes)\<rparr>)) \<and>
     then_rcs final = Some (rcs @ codes) \<and>
     main_rc final = main_rc st \<and>
     (status final = ''completed'' \<and> error final = error st \<and> m = length cmds \<and> codes = replicate m 0
      \<or> status final = ''failed'' \<and> error final \<noteq> None \<and> codes \<noteq> [] \<and> last codes \<noteq> 0)"
proof (induction cmds arbitrary: i rcs p)
  case Nil
  show ?case
    by (rule exI[of _ 0], rule exI[of _ "[]"],
        rule exI[of _ "st\<lparr>then_rcs := Some rcs, status := ''completed''\<rparr>"]) simp
next
  case (Cons x xs)
  let ?rc = "shell h (length (filter is_ran (trace p))) x"
  let ?p' = "p\<lparr>trace := trace p @ [Ran x lg ?rc]\<rparr>"
  show ?case
  proof (cases "?rc = 0")
    case False
    show ?thesis
      by (rule exI[of _ 1], rule exI[of _ "[?rc]"],
          rule exI[of _ "st\<lparr>status := ''failed'', then_rcs := Some (rcs @ [?rc]),
            error := Some (''follow-up failed at step '' @ str_nat i @ '' rc='' @ str_int ?rc)\<rparr>"])
         (use False in \<open>simp add: run_shell_def Let_def\<close>)
  next
    case True
    from Cons.IH[of "Suc i" "rcs @ [0]" ?p']
    obtain m codes final where
      m: "m \<le> length xs" "length codes = m"
      and f: "followups h sp lg (Suc i) xs (rcs @ [0]) st ?p' =
       (Returned (if status final = ''completed'' then 0 else 1),
        do_write_json sp (asdict final)
          (?p'\<lparr>trace := trace ?p' @ map (\<lambda>(c, r). Ran c lg r) (zip (take m xs) codes)\<rparr>))"
      and r: "then_rcs final = Some ((rcs @ [0]) @ codes)" "main_rc final = main_rc st"
      and d: "status final = ''completed'' \<and> error final = error st \<and> m = length xs \<and> codes = replicate m 0
      \<or> status final = ''failed'' \<and> error final \<noteq> None \<and> codes \<noteq> [] \<and> last codes \<noteq> 0"
      by blast
    show ?thesis
      by (rule exI[of _ "Suc m"], rule exI[of _ "0 # codes"], rule exI[of _ final])
         (use True m f r d in \<open>auto simp add: run_shell_def Let_def\<close>)
  qed
qed

lemma followup_codes_append:
  "followup_codes lg (xs @ ys) = followup_codes lg xs @ followup_codes lg ys"
  by (induction lg xs rule: followup_codes.induct) simp_all

lemma followup_codes_ran: "followup_codes lg (map (\<lambda>(c, r). Ran c lg r) zs) = map snd zs"
  by (induction zs) auto

lemma last_persisted_append:
  "last_persisted sp (xs @ ys) =
     (case last_persisted sp ys of Some j \<Rightarrow> Some j | None \<Rightarrow> last_persisted sp xs)"
  by (induction xs) (auto split: option.splits)

lemma last_persisted_ran: "last_persisted sp (map (\<lambda>(c, r). Ran c lg r) zs) = None"
  by (induction zs) auto

lemma run_chain_shape:
  assumes "trace p = [Persisted (rd @ [''state.json'']) (asdict st)]"
  shows "\<exists>evs final.
     run_chain h rd st p =
       (Returned (if status final = ''completed'' then 0 else 1),
        do_write_json (rd @ [''state.json'']) (asdict final)
          (p\<lparr>trace := [Persisted (rd @ [''state.json'']) (asdict st),
                         Persisted (rd @ [''state.json'']) (asdict (st\<lparr>status := ''running''\<rparr>)),
                         Ran (main_cmd st) (rd @ [''main.log'']) (shell h 0 (main_cmd st))]
                        @ map (\<lambda>(c, r). Ran c (rd @ [''then.log'']) r) evs,
             fs := write_json (rd @ [''state.json'']) (asdict (st\<lparr>status := ''running''\<rparr>)) (fs p)\<rparr>)) \<and>
     (status final = ''completed'' \<or> status final = ''failed'') \<and>
     (shell h 0 (main_cmd st) = 0 \<longrightarrow> then_rcs final = Some (map snd evs)) \<and>
     (shell h 0 (main_cmd st) \<noteq> 0 \<longrightarrow> evs = [])"
proof (cases "shell h 0 (main_cmd st) = 0")
  case False
  have nr: "filter is_ran (trace p) = []" using assms by simp
  show ?thesis
    using run_chain_main_fail[OF nr refl False, of rd] False assms
    by (intro exI[of _ "[]"] exI[of _ "st\<lparr>main_rc := Some (shell h 0 (main_cmd st)), status := ''failed'',
           error := Some (''main command failed with rc='' @ str_int (shell h 0 (main_cmd st)))\<rparr>"])
       (simp add: do_write_json_def)
next
  case True
  have nr: "filter is_ran (trace p) = []" using assms by simp
  let ?sp = "rd @ [''state.json'']"
  let ?p1 = "snd (run_shell h (main_cmd st) (rd @ [''main.log''])
          (do_write_json ?sp (asdict (st\<lparr>status := ''running''\<rparr>)) p))"
  from followups_shape[of "then_cmds st" h ?sp "rd @ [''then.log'']" 1 "[]"
      "st\<lparr>status := ''running'', main_rc := Some 0\<rparr>" ?p1]
  obtain m codes final where
    m: "m \<le> length (then_cmds st)" "length codes = m"
    and f: "followups h ?sp (rd @ [''then.log'']) 1 (then_cmds st) [] (st\<lparr>status := ''running'', main_rc := Some 0\<rparr>) ?p1 =
       (Returned (if status final = ''completed'' then 0 else 1),
        do_write_json ?sp (asdict final)
          (?p1\<lparr>trace := trace ?p1 @ map (\<lambda>(c, r). Ran c (rd @ [''then.log'']) r) (zip (take m (then_cmds st)) codes)\<rparr>))"
    and r: "then_rcs final = Some ([] @ codes)"
    and d: "status final = ''completed'' \<and> error final = error (st\<lparr>status := ''running'', main_rc := Some 0\<rparr>) \<and> m = length (then_cmds st) \<and> codes = replicate m 0
      \<or> status final = ''failed'' \<and> error final \<noteq> None \<and> codes \<noteq> [] \<and> last codes \<noteq> 0"
    by blast
  have sz: "map snd (zip (take m (then_cmds st)) codes) = codes"
    using m by (simp add: map_snd_zip)
  show ?thesis
    using run_chain_main_ok[OF nr True, of rd] f r d True assms sz
    by (intro exI[of _ "zip (take m (then_cmds st)) codes"] exI[of _ final])
       (auto simp add: do_write_json_def run_shell_def Let_def)
qed

lemma observed_shape:
  fixes lg :: path
  defines "f \<equiv> \<lambda>(c, r). Ran c lg r"
  assumes fcA: "followup_codes lg A = []"
    and lpA: "last_persisted sp A = Some (asdict s0)"
    and t: "t = A @ map f evs @ [Persisted sp (asdict final)]"
  shows "last t = Persisted sp (asdict final)"
    and "persisted_state sp t = Some final"
    and "followup_codes lg t = map snd evs"
    and "length A < length t"
    and "\<And>k. length A \<le> k \<Longrightarrow> k < length t \<Longrightarrow>
           persisted_state sp (take k t) = Some s0
         \<and> length (followup_codes lg (take k t)) = k - length A"
proof -
  show "last t = Persisted sp (asdict final)" using t by simp
  show "persisted_state sp t = Some final"
    unfolding t persisted_state_def
    by (simp add: last_persisted_append from_dict_asdict)
  show "followup_codes lg t = map snd evs"
    unfolding t f_def by (simp add: followup_codes_append followup_codes_ran fcA)
  show "length A < length t" using t by simp
  fix k assume k: "length A \<le> k" "k < length t"
  have tk: "take k t = A @ map f (take (k - length A) evs)"
    using k unfolding t by (simp add: take_map)
  have lp: "last_persisted sp (take k t) = Some (asdict s0)"
    unfolding tk f_def by (simp add: last_persisted_append last_persisted_ran lpA)
  have fc: "followup_codes lg (take k t) = map snd (take (k - length A) evs)"
    unfolding tk f_def by (simp add: followup_codes_append followup_codes_ran fcA)
  have le: "k - length A \<le> length evs" using k unfolding t by simp
  show "persisted_state sp (take k t) = Some s0
         \<and> length (followup_codes lg (take k t)) = k - length A"
    using lp fc le by (simp add: persisted_state_def from_dict_asdict)
qed

lemma example_ok_trace:
  "trace (snd (main_orchestrate example_host (example_args ''true'' [''true'', ''true'']) example_fs)) =
     [Persisted (example_run_dir @ [''state.json'']) (asdict (example_state ''true'' [''true'', ''true''])),
      Persisted (example_run_dir @ [''state.json''])
        (asdict ((example_state ''true'' [''true'', ''true''])\<lparr>status := ''running''\<rparr>)),
      Ran ''true'' (example_run_dir @ [''main.log'']) 0,
      Ran ''true'' (example_run_dir @ [''then.log'']) 0,
      Ran ''true'' (example_run_dir @ [''then.log'']) 0,
      Persisted (example_run_dir @ [''state.json''])
        (asdict ((example_state ''true'' [''true'', ''true''])\<lparr>status := ''running'', main_rc := Some 0,
           then_rcs := Some [0, 0], status := ''completed''\<rparr>))]"
proof -
  have nd: "\<not> arg_detach (example_args ''true'' [''true'', ''true''])"
    by (simp add: example_args_def)
  show ?thesis
    unfolding main_is_run_chain[OF example_prepare nd]
    by (simp add: run_chain_def run_shell_def Let_def example_prepared_def do_write_json_def
        example_state_def example_shell)
qed

lemma example_parts: "parts ''/w/.codex/longrun/job_20240101_000000'' = example_run_dir"
  by (simp add: parts_def example_run_dir_def)

lemma example_prepare_detach:
  "prepare example_host ((example_args cmd thens)\<lparr>arg_detach := d\<rparr>) example_fs =
     Inr (example_state cmd thens, [''w''], example_run_dir, example_prepared cmd thens)"
  by (simp add: prepare_def resolve_workspace_root_def truthy_str_def example_host_def example_args_def
      example_fs_def example_run_dir_def example_state_def new_state_def run_dir_of_def make_run_dir_def
      mkdir_def is_dir_def is_file_def ancestors_def joinpath_def parts_def path_name_def path_str_def
      example_prepared_def upt_rec Let_def)

lemma example_detached:
  "main_orchestrate example_host ((example_args ''true'' [])\<lparr>arg_detach := True\<rparr>) example_fs =
     (Returned 0,
      \<lparr>fs = write_json (example_run_dir @ [''detached.json''])
              (JObj [(''orchestrator_pid'', JInt 4242)])
              (write_json (example_run_dir @ [''state.json'']) (asdict (example_state ''true'' []))
                 \<lparr>dirs = [[''w''], [''w'', ''.codex''], [''w'', ''.codex'', ''longrun''], example_run_dir],
                  files = Map.empty\<rparr>),
       trace = [Persisted (example_run_dir @ [''state.json'']) (asdict (example_state ''true'' [])),
                Spawned [''/usr/bin/python3'', ''/w/orchestrate.py'', ''--label'', ''job'',
                         ''--workspace'', ''/w'', ''--cmd'', ''true'']
                  ''/w/.codex/longrun/job_20240101_000000'' (example_run_dir @ [''orchestrator.log'']),
                Persisted (example_run_dir @ [''detached.json'']) (JObj [(''orchestrator_pid'', JInt 4242)])],
       stdout = [Text ''job_20240101_000000'']\<rparr>)"
  unfolding main_orchestrate_def example_prepare_detach
  by (simp add: detach_def example_prepared_def do_write_json_def example_args_def example_host_def
      example_run_dir_def path_str_def example_state_def Let_def)

lemma example_worker_prepare:
  "prepare example_worker_host (example_args ''true'' []) example_detached_fs =
     Inr ((example_state ''true'' [])\<lparr>created_at := ''2024-01-01T00:00:07''\<rparr>, [''w''], example_run_dir,
          do_write_json (example_run_dir @ [''state.json''])
            (asdict ((example_state ''true'' [])\<lparr>created_at := ''2024-01-01T00:00:07''\<rparr>))
            \<lparr>fs = example_detached_fs, trace = [], stdout = []\<rparr>)"
proof -
  have d: "dirs example_detached_fs = [[''w''], [''w'', ''.codex''], [''w'', ''.codex'', ''longrun''], example_run_dir]"
    unfolding example_detached_fs_def example_detached by (simp add: dirs_write_json)
  have ws: "resolve_workspace_root example_worker_host (arg_workspace (example_args ''true'' [])) = Inr [''w'']"
    by (simp add: resolve_workspace_root_def truthy_str_def example_args_def example_worker_host_def
        example_host_def parts_def)
  have rd: "run_dir_of example_worker_host (example_args ''true'' []) [''w''] example_detached_fs =
      Inr (example_run_dir, example_detached_fs)"
    by (simp add: run_dir_of_def example_worker_host_def example_host_def example_parts mkdir_def
        is_dir_def d)
  have ns: "new_state example_worker_host (example_args ''true'' []) [''w''] example_run_dir =
      (example_state ''true'' [])\<lparr>created_at := ''2024-01-01T00:00:07''\<rparr>"
    by (simp add: new_state_def example_worker_host_def example_host_def example_args_def
        example_state_def example_run_dir_def path_name_def path_str_def)
  show ?thesis
    by (simp add: prepare_def ws rd ns)
qed

lemma example_status_root:
  "resolve_workspace_root example_host (opt_workspace (example_status_args rid latest)) = Inr [''w'']"
  by (simp add: resolve_workspace_root_def truthy_str_def example_status_args_def example_host_def parts_def)

lemma example_done:
  "dirs example_done_fs = [[''w''], [''w'', ''.codex''], [''w'', ''.codex'', ''longrun''], example_run_dir]"
  "files example_done_fs (example_run_dir @ [''state.json'']) =
     Some (Json_text (asdict ((example_state ''true'' [])\<lparr>status := ''completed'', main_rc := Some 0,
        then_rcs := Some []\<rparr>)))"
proof -
  have nd: "\<not> arg_detach (example_args ''true'' [])" by (simp add: example_args_def)
  have r: "example_done_fs =
     write_json (example_run_dir @ [''state.json''])
       (asdict ((example_state ''true'' [])\<lparr>status := ''completed'', main_rc := Some 0, then_rcs := Some []\<rparr>))
       (write_json (example_run_dir @ [''state.json''])
          (asdict ((example_state ''true'' [])\<lparr>status := ''running''\<rparr>))
          (fs (example_prepared ''true'' [])))"
    unfolding example_done_fs_def main_is_run_chain[OF example_prepare nd]
    by (simp add: run_chain_def run_shell_def Let_def do_write_json_def example_state_def example_shell)
  show "dirs example_done_fs = [[''w''], [''w'', ''.codex''], [''w'', ''.codex'', ''longrun''], example_run_dir]"
    unfolding r by (simp add: dirs_write_json example_prepared_def do_write_json_def)
  show "files example_done_fs (example_run_dir @ [''state.json'']) =
     Some (Json_text (asdict ((example_state ''true'' [])\<lparr>status := ''completed'', main_rc := Some 0,
        then_rcs := Some []\<rparr>)))"
    unfolding r using tmp_path_neq[of "example_run_dir @ [''state.json'']"]
    by (simp add: files_write_json)
qed

lemma example_latest: "latest_run_dir example_done_fs [''w''] = Some example_run_dir"
  by (simp add: latest_run_dir_def is_dir_def iterdir_def example_done(1) example_run_dir_def)

lemma example_corrupt_latest: "latest_run_dir example_corrupt_fs [''w''] = Some example_run_dir"
  by (simp add: latest_run_dir_def is_dir_def iterdir_def example_corrupt_fs_def example_run_dir_def)

lemma example_missing_latest:
  "latest_run_dir (example_corrupt_fs\<lparr>files := Map.empty\<rparr>) [''w''] = Some example_run_dir"
  by (simp add: latest_run_dir_def is_dir_def iterdir_def example_corrupt_fs_def example_run_dir_def)

lemma example_join:
  "joinpath ([''w''] @ [''.codex'', ''longrun'']) ''job_20240101_000000'' = example_run_dir"
  by (simp add: joinpath_def parts_def example_run_dir_def)

section \<open>The claims\<close>

text \<open>
  C7. When the main command exits with a nonzero code \<open>c\<close>, the orchestrator records
  \<open>main_rc = c\<close>, sets the error to \<^verbatim>\<open>main command failed with rc=<c>\<close>, sets the status
  to \<^verbatim>\<open>failed\<close>, persists that record and returns 1. The events of the whole run are
  the two earlier writes, the main command and this last write: no follow-up command
  is run, and the record keeps \<open>then_rcs\<close> unset, so it holds no follow-up exit code.
\<close>

theorem main_failure_stops_run:
  assumes "prepare h a fsys = Inr (st, ws, rd, p)"
    and "\<not> arg_detach a"
    and "shell h 0 (arg_cmd a) = c"
    and "c \<noteq> 0"
  shows "let sp = rd @ [''state.json''];
             final = st\<lparr>main_rc := Some c, status := ''failed'',
                        error := Some (''main command failed with rc='' @ str_int c)\<rparr>;
             r = main_orchestrate h a fsys
         in fst r = Returned 1
          \<and> trace (snd r) =
              [Persisted sp (asdict st),
               Persisted sp (asdict (st\<lparr>status := ''running''\<rparr>)),
               Ran (arg_cmd a) (rd @ [''main.log'']) c,
               Persisted sp (asdict final)]
          \<and> reload sp (fs (snd r)) = Inr final
          \<and> then_rcs final = None"
proof -
  note pk = prepare_ok[OF assms(1)]
  have cmd: "main_cmd st = arg_cmd a" and tr: "then_rcs st = None"
    using pk(1) by (simp_all add: new_state_def)
  have nr: "filter is_ran (trace p) = []" using pk(2) by simp
  have c': "shell h 0 (main_cmd st) = c" using assms(3) cmd by simp
  note rc = run_chain_main_fail[OF nr c' assms(4), of rd]
  note m = main_is_run_chain[OF assms(1,2)]
  show ?thesis
    unfolding Let_def m rc
    using pk(2) cmd tr by (simp add: trace_do_write_json fs_do_write_json reload_write_json)
qed

theorem main_failure_stops_run_witness:
  "prepare example_host (example_args ''exit 2'' [''touch marker'']) example_fs =
     Inr (example_state ''exit 2'' [''touch marker''], [''w''], example_run_dir,
          example_prepared ''exit 2'' [''touch marker''])
   \<and> \<not> arg_detach (example_args ''exit 2'' [''touch marker''])
   \<and> shell example_host 0 (arg_cmd (example_args ''exit 2'' [''touch marker''])) = 2
   \<and> fst (main_orchestrate example_host (example_args ''exit 2'' [''touch marker'']) example_fs) = Returned 1
   \<and> filter is_ran (trace (snd (main_orchestrate example_host (example_args ''exit 2'' [''touch marker'']) example_fs))) =
       [Ran ''exit 2'' (example_run_dir @ [''main.log'']) 2]
   \<and> reload (example_run_dir @ [''state.json''])
        (fs (snd (main_orchestrate example_host (example_args ''exit 2'' [''touch marker'']) example_fs))) =
       Inr \<lparr>run_id = ''job_20240101_000000'', label = ''job'', workspace = ''/w'',
            created_at = ''2024-01-01T00:00:00'', status = ''failed'', main_cmd = ''exit 2'',
            then_cmds = [''touch marker''], main_pid = None, main_rc = Some 2, then_rcs = None,
            error = Some ''main command failed with rc=2''\<rparr>"
proof -
  have nd: "\<not> arg_detach (example_args ''exit 2'' [''touch marker''])"
    by (simp add: example_args_def)
  have sh: "shell example_host 0 (arg_cmd (example_args ''exit 2'' [''touch marker''])) = 2"
    by (simp add: example_args_def example_shell)
  have ne: "(2::int) \<noteq> 0" by simp
  show ?thesis
    using main_failure_stops_run[OF example_prepare nd sh ne] nd sh example_prepare
    by (simp add: Let_def example_state_def example_args_def str_int_digit digit_def)
qed

text \<open>
  C6. When the main command exits 0 and the \<open>n\<close>-th follow-up (counted from 1) is the
  first to exit nonzero, with code \<open>c\<close>, the run returns 1 and the record persisted last
  has status \<^verbatim>\<open>failed\<close>, the error \<^verbatim>\<open>follow-up failed at step <n> rc=<c>\<close> and as
  \<open>then_rcs\<close> exactly the codes of the follow-ups 1 to \<open>n\<close> (zeros, then \<open>c\<close>). The
  events of the run end with the \<open>n\<close>-th follow-up and that write: no later follow-up
  is run.
\<close>

theorem followup_failure_stops_chain:
  assumes "prepare h a fsys = Inr (st, ws, rd, p)"
    and "\<not> arg_detach a"
    and "shell h 0 (arg_cmd a) = 0"
    and "0 < n" and "n \<le> length (arg_then a)"
    and "\<forall>j. 0 < j \<and> j < n \<longrightarrow> shell h j (arg_then a ! (j - 1)) = 0"
    and "shell h n (arg_then a ! (n - 1)) = c"
    and "c \<noteq> 0"
  shows "let sp = rd @ [''state.json'']; lg = rd @ [''then.log''];
             final = st\<lparr>main_rc := Some 0, status := ''failed'',
                        then_rcs := Some (map (\<lambda>j. shell h j (arg_then a ! (j - 1))) [1..<Suc n]),
                        error := Some (''follow-up failed at step '' @ str_nat n @ '' rc='' @ str_int c)\<rparr>;
             r = main_orchestrate h a fsys
         in fst r = Returned 1
          \<and> reload sp (fs (snd r)) = Inr final
          \<and> then_rcs final = Some (replicate (n - 1) 0 @ [c])
          \<and> trace (snd r) =
              [Persisted sp (asdict st),
               Persisted sp (asdict (st\<lparr>status := ''running''\<rparr>)),
               Ran (arg_cmd a) (rd @ [''main.log'']) 0]
              @ map (\<lambda>cmd. Ran cmd lg 0) (take (n - 1) (arg_then a))
              @ [Ran (arg_then a ! (n - 1)) lg c, Persisted sp (asdict final)]"
proof -
  note pk = prepare_ok[OF assms(1)]
  have cmd: "main_cmd st = arg_cmd a" and thens: "then_cmds st = arg_then a"
    using pk(1) by (simp_all add: new_state_def)
  obtain m where n: "n = Suc m" using assms(4) by (cases n) auto
  have codes: "map (\<lambda>j. shell h j (arg_then a ! (j - 1))) [1..<Suc n] = replicate m 0 @ [c]"
  proof -
    have "map (\<lambda>j. shell h j (arg_then a ! (j - 1))) [1..<n] = map (\<lambda>j. 0) [1..<n]"
      using assms(6) by (intro map_cong) auto
    then show ?thesis using assms(7) n by (simp add: map_replicate_const)
  qed
  have nr: "filter is_ran (trace p) = []" using pk(2) by simp
  have c0: "shell h 0 (main_cmd st) = 0" using assms(3) cmd by simp
  let ?sp = "rd @ [''state.json'']"
  let ?p1 = "snd (run_shell h (main_cmd st) (rd @ [''main.log''])
          (do_write_json ?sp (asdict (st\<lparr>status := ''running''\<rparr>)) p))"
  have t1: "trace ?p1 = [Persisted ?sp (asdict st), Persisted ?sp (asdict (st\<lparr>status := ''running''\<rparr>)),
      Ran (arg_cmd a) (rd @ [''main.log'']) 0]"
    using pk(2) c0 cmd by (simp add: trace_run_shell trace_do_write_json)
  have k1: "length (filter is_ran (trace ?p1)) = 1" unfolding t1 by simp
  have lt: "m < length (then_cmds st)" using assms(5) n thens by simp
  have pre: "\<And>j. j < m \<Longrightarrow> shell h (1 + j) (then_cmds st ! j) = 0"
    using assms(6) n thens by (metis Suc_less_eq diff_Suc_1 plus_1_eq_Suc zero_less_Suc)
  have cm: "shell h (1 + m) (then_cmds st ! m) = c" using assms(7) n thens by simp
  note fl = followups_fail[OF k1 lt pre cm assms(8), where sp = ?sp and lg = "rd @ [''then.log'']"
      and i = 1 and rcs = "[]" and st = "st\<lparr>status := ''running'', main_rc := Some 0\<rparr>"]
  have r: "main_orchestrate h a fsys =
     (Returned 1,
      do_write_json ?sp
        (asdict (st\<lparr>status := ''running'', main_rc := Some 0, status := ''failed'',
           then_rcs := Some ([] @ replicate m 0 @ [c]),
           error := Some (''follow-up failed at step '' @ str_nat (1 + m) @ '' rc='' @ str_int c)\<rparr>))
        (?p1\<lparr>trace := trace ?p1 @ map (\<lambda>c. Ran c (rd @ [''then.log'']) 0) (take m (then_cmds st))
                      @ [Ran (then_cmds st ! m) (rd @ [''then.log'']) c]\<rparr>))"
    using main_is_run_chain[OF assms(1,2)] run_chain_main_ok[OF nr c0, of rd] fl by simp
  show ?thesis
    unfolding Let_def r codes
    using t1 thens n
    by (cases st) (simp add: trace_do_write_json fs_do_write_json reload_write_json)
qed

theorem followup_failure_stops_chain_witness:
  "prepare example_host (example_args ''true'' [''true'', ''exit 5'', ''true'']) example_fs =
     Inr (example_state ''true'' [''true'', ''exit 5'', ''true''], [''w''], example_run_dir,
          example_prepared ''true'' [''true'', ''exit 5'', ''true''])
   \<and> \<not> arg_detach (example_args ''true'' [''true'', ''exit 5'', ''true''])
   \<and> shell example_host 0 ''true'' = 0
   \<and> shell example_host 1 ''true'' = 0
   \<and> shell example_host 2 ''exit 5'' = 5
   \<and> fst (main_orchestrate example_host (example_args ''true'' [''true'', ''exit 5'', ''true'']) example_fs) = Returned 1
   \<and> filter is_ran (trace (snd (main_orchestrate example_host (example_args ''true'' [''true'', ''exit 5'', ''true'']) example_fs))) =
       [Ran ''true'' (example_run_dir @ [''main.log'']) 0,
        Ran ''true'' (example_run_dir @ [''then.log'']) 0,
        Ran ''exit 5'' (example_run_dir @ [''then.log'']) 5]
   \<and> reload (example_run_dir @ [''state.json''])
        (fs (snd (main_orchestrate example_host (example_args ''true'' [''true'', ''exit 5'', ''true'']) example_fs))) =
       Inr \<lparr>run_id = ''job_20240101_000000'', label = ''job'', workspace = ''/w'',
            created_at = ''2024-01-01T00:00:00'', status = ''failed'', main_cmd = ''true'',
            then_cmds = [''true'', ''exit 5'', ''true''], main_pid = None, main_rc = Some 0,
            then_rcs = Some [0, 5],
            error = Some ''follow-up failed at step 2 rc=5''\<rparr>"
proof -
  let ?a = "example_args ''true'' [''true'', ''exit 5'', ''true'']"
  have nd: "\<not> arg_detach ?a" by (simp add: example_args_def)
  have s0: "shell example_host 0 (arg_cmd ?a) = 0" by (simp add: example_args_def example_shell)
  have n0: "0 < (2::nat)" by simp
  have nl: "(2::nat) \<le> length (arg_then ?a)" by (simp add: example_args_def)
  have pre: "\<forall>j. 0 < j \<and> j < (2::nat) \<longrightarrow> shell example_host j (arg_then ?a ! (j - 1)) = 0"
  proof (intro allI impI)
    fix j :: nat assume "0 < j \<and> j < 2"
    then have "j = 1" by simp
    then show "shell example_host j (arg_then ?a ! (j - 1)) = 0"
      by (simp add: example_args_def example_shell)
  qed
  have sn: "shell example_host 2 (arg_then ?a ! (2 - 1)) = 5"
    by (simp add: example_args_def example_shell)
  have ne: "(5::int) \<noteq> 0" by simp
  show ?thesis
    using followup_failure_stops_chain[OF example_prepare nd s0 n0 nl pre sn ne] nd example_prepare
    by (simp add: Let_def example_state_def example_args_def example_shell str_int_digit
        str_nat_digit digit_def)
qed

text \<open>
  C8. When the main command and every follow-up exit 0 (also when there is no
  follow-up), the run returns 0 and the record persisted last has status
  \<^verbatim>\<open>completed\<close>, with \<open>error\<close> unset. In every run that reaches the main command, the
  exit code mirrors the status persisted last: 0 with \<^verbatim>\<open>completed\<close>, 1 with \<^verbatim>\<open>failed\<close>.
\<close>

theorem success_completes_and_exit_mirrors_status:
  assumes "prepare h a fsys = Inr (st, ws, rd, p)"
    and "\<not> arg_detach a"
  shows "let sp = rd @ [''state.json''];
             done = st\<lparr>status := ''completed'', main_rc := Some 0,
                       then_rcs := Some (replicate (length (arg_then a)) 0)\<rparr>;
             r = main_orchestrate h a fsys
         in (shell h 0 (arg_cmd a) = 0
               \<and> (\<forall>j. j < length (arg_then a) \<longrightarrow> shell h (Suc j) (arg_then a ! j) = 0)
             \<longrightarrow> exit_code (fst r) = 0 \<and> reload sp (fs (snd r)) = Inr done
                 \<and> last (trace (snd r)) = Persisted sp (asdict done)
                 \<and> status done = ''completed'' \<and> error done = None)
          \<and> (\<exists>final. reload sp (fs (snd r)) = Inr final
                \<and> last (trace (snd r)) = Persisted sp (asdict final)
                \<and> (status final = ''completed'' \<and> exit_code (fst r) = 0
                    \<or> status final = ''failed'' \<and> exit_code (fst r) = 1))"
proof -
  note pk = prepare_ok[OF assms(1)]
  note m = main_is_run_chain[OF assms(1,2)]
  have cmd: "main_cmd st = arg_cmd a" and thens: "then_cmds st = arg_then a"
    and er: "error st = None"
    using pk(1) by (simp_all add: new_state_def)
  let ?sp = "rd @ [''state.json'']"
  let ?done = "st\<lparr>status := ''completed'', main_rc := Some 0,
                       then_rcs := Some (replicate (length (arg_then a)) 0)\<rparr>"
  have ok: "exit_code (fst (main_orchestrate h a fsys)) = 0
      \<and> reload ?sp (fs (snd (main_orchestrate h a fsys))) = Inr ?done
      \<and> last (trace (snd (main_orchestrate h a fsys))) = Persisted ?sp (asdict ?done)
      \<and> status ?done = ''completed'' \<and> error ?done = None"
    if c0: "shell h 0 (arg_cmd a) = 0"
      and all0: "\<forall>j. j < length (arg_then a) \<longrightarrow> shell h (Suc j) (arg_then a ! j) = 0"
  proof -
    have nr: "filter is_ran (trace p) = []" using pk(2) by simp
    have c0': "shell h 0 (main_cmd st) = 0" using c0 cmd by simp
    let ?p1 = "snd (run_shell h (main_cmd st) (rd @ [''main.log''])
          (do_write_json ?sp (asdict (st\<lparr>status := ''running''\<rparr>)) p))"
    have k1: "length (filter is_ran (trace ?p1)) = 1"
      using pk(2) by (simp add: trace_run_shell trace_do_write_json)
    have pre: "\<And>j. j < length (then_cmds st) \<Longrightarrow> shell h (1 + j) (then_cmds st ! j) = 0"
      using all0 thens by simp
    note fo = followups_all_ok[OF k1 pre, where sp = ?sp and lg = "rd @ [''then.log'']"
        and i = 1 and rcs = "[]" and st = "st\<lparr>status := ''running'', main_rc := Some 0\<rparr>"]
    have r: "main_orchestrate h a fsys =
       (Returned 0,
        do_write_json ?sp
          (asdict (st\<lparr>status := ''running'', main_rc := Some 0,
             then_rcs := Some ([] @ replicate (length (then_cmds st)) 0), status := ''completed''\<rparr>))
          (?p1\<lparr>trace := trace ?p1 @ map (\<lambda>c. Ran c (rd @ [''then.log'']) 0) (then_cmds st)\<rparr>))"
      using m run_chain_main_ok[OF nr c0', of rd] fo by simp
    show ?thesis
      unfolding r using thens er
      by (cases st) (simp add: trace_do_write_json fs_do_write_json reload_write_json)
  qed
  from run_chain_shape[OF pk(2), of h]
  obtain evs final where
    rc: "run_chain h rd st p =
       (Returned (if status final = ''completed'' then 0 else 1),
        do_write_json ?sp (asdict final)
          (p\<lparr>trace := [Persisted ?sp (asdict st),
                         Persisted ?sp (asdict (st\<lparr>status := ''running''\<rparr>)),
                         Ran (main_cmd st) (rd @ [''main.log'']) (shell h 0 (main_cmd st))]
                        @ map (\<lambda>(c, r). Ran c (rd @ [''then.log'']) r) evs,
             fs := write_json ?sp (asdict (st\<lparr>status := ''running''\<rparr>)) (fs p)\<rparr>))"
    and sf: "status final = ''completed'' \<or> status final = ''failed''"
    by blast
  have mirror: "\<exists>final. reload ?sp (fs (snd (main_orchestrate h a fsys))) = Inr final
                \<and> last (trace (snd (main_orchestrate h a fsys))) = Persisted ?sp (asdict final)
                \<and> (status final = ''completed'' \<and> exit_code (fst (main_orchestrate h a fsys)) = 0
                    \<or> status final = ''failed'' \<and> exit_code (fst (main_orchestrate h a fsys)) = 1)"
    unfolding m rc using sf
    by (intro exI[of _ final]) (auto simp add: trace_do_write_json fs_do_write_json reload_write_json)
  show ?thesis unfolding Let_def using ok mirror by blast
qed

theorem success_completes_and_exit_mirrors_status_witness:
  "prepare example_host (example_args ''true'' [''true'', ''true'']) example_fs =
     Inr (example_state ''true'' [''true'', ''true''], [''w''], example_run_dir,
          example_prepared ''true'' [''true'', ''true''])
   \<and> \<not> arg_detach (example_args ''true'' [''true'', ''true''])
   \<and> shell example_host 0 ''true'' = 0
   \<and> shell example_host 1 ''true'' = 0
   \<and> shell example_host 2 ''true'' = 0
   \<and> exit_code (fst (main_orchestrate example_host (example_args ''true'' [''true'', ''true'']) example_fs)) = 0
   \<and> reload (example_run_dir @ [''state.json''])
        (fs (snd (main_orchestrate example_host (example_args ''true'' [''true'', ''true'']) example_fs))) =
       Inr \<lparr>run_id = ''job_20240101_000000'', label = ''job'', workspace = ''/w'',
            created_at = ''2024-01-01T00:00:00'', status = ''completed'', main_cmd = ''true'',
            then_cmds = [''true'', ''true''], main_pid = None, main_rc = Some 0,
            then_rcs = Some [0, 0], error = None\<rparr>"
proof -
  let ?a = "example_args ''true'' [''true'', ''true'']"
  have nd: "\<not> arg_detach ?a" by (simp add: example_args_def)
  have s0: "shell example_host 0 (arg_cmd ?a) = 0" by (simp add: example_args_def example_shell)
  have all0: "\<forall>j. j < length (arg_then ?a) \<longrightarrow> shell example_host (Suc j) (arg_then ?a ! j) = 0"
    by (simp add: example_args_def example_shell nth_Cons split: nat.splits)
  from success_completes_and_exit_mirrors_status[OF example_prepare nd]
  have "exit_code (fst (main_orchestrate example_host ?a example_fs)) = 0
      \<and> reload (example_run_dir @ [''state.json''])
           (fs (snd (main_orchestrate example_host ?a example_fs))) =
         Inr ((example_state ''true'' [''true'', ''true''])\<lparr>status := ''completed'', main_rc := Some 0,
                then_rcs := Some (replicate (length (arg_then ?a)) 0)\<rparr>)"
    using s0 all0 unfolding Let_def by blast
  then show ?thesis
    using nd example_prepare
    by (simp add: example_state_def example_args_def example_shell numeral_2_eq_2)
qed

text \<open>
  C1, as the code has it. In the follow-up phase the state file is written once, when
  the chain ends (at the first nonzero follow-up, or after the last one): the last event
  of the run is that write, and its record holds as \<open>then_rcs\<close> exactly the exit codes
  of all the follow-ups that ran, in order. Until then nothing is persisted: a run
  stopped after \<open>k\<close> events, the main command done (\<open>3 \<le> k\<close>) and the last write not,
  leaves the record written before the main command, with status \<^verbatim>\<open>running\<close> and
  \<open>then_rcs\<close> unset, although \<open>k - 3\<close> follow-ups have finished.
\<close>

theorem followup_codes_persisted_at_chain_end:
  assumes "prepare h a fsys = Inr (st, ws, rd, p)"
    and "\<not> arg_detach a"
    and "shell h 0 (arg_cmd a) = 0"
  shows "let sp = rd @ [''state.json'']; lg = rd @ [''then.log''];
             t = trace (snd (main_orchestrate h a fsys))
         in (\<exists>final. last t = Persisted sp (asdict final)
               \<and> persisted_state sp t = Some final
               \<and> then_rcs final = Some (followup_codes lg t))
          \<and> 3 < length t
          \<and> (\<forall>k. 3 \<le> k \<and> k < length t \<longrightarrow>
                persisted_state sp (take k t) = Some (st\<lparr>status := ''running''\<rparr>)
              \<and> then_rcs (st\<lparr>status := ''running''\<rparr>) = None
              \<and> length (followup_codes lg (take k t)) = k - 3)"
proof -
  note pk = prepare_ok[OF assms(1)]
  note m = main_is_run_chain[OF assms(1,2)]
  have cmd: "main_cmd st = arg_cmd a" and tr: "then_rcs st = None"
    using pk(1) by (simp_all add: new_state_def)
  let ?sp = "rd @ [''state.json'']"
  let ?lg = "rd @ [''then.log'']"
  let ?f = "\<lambda>(c, r). Ran c ?lg r"
  let ?A = "[Persisted ?sp (asdict st), Persisted ?sp (asdict (st\<lparr>status := ''running''\<rparr>)),
             Ran (arg_cmd a) (rd @ [''main.log'']) 0]"
  let ?t = "trace (snd (main_orchestrate h a fsys))"
  from run_chain_shape[OF pk(2), of h] assms(3) cmd
  obtain evs final where
    rc: "run_chain h rd st p =
       (Returned (if status final = ''completed'' then 0 else 1),
        do_write_json ?sp (asdict final)
          (p\<lparr>trace := ?A @ map ?f evs,
             fs := write_json ?sp (asdict (st\<lparr>status := ''running''\<rparr>)) (fs p)\<rparr>))"
    and codes: "then_rcs final = Some (map snd evs)"
    by auto
  have t: "?t = ?A @ map ?f evs @ [Persisted ?sp (asdict final)]"
    unfolding m rc by (simp add: trace_do_write_json)
  have fcA: "followup_codes ?lg ?A = []" by simp
  have lpA: "last_persisted ?sp ?A = Some (asdict (st\<lparr>status := ''running''\<rparr>))" by simp
  note o = observed_shape[OF fcA lpA t]
  have lenA: "length ?A = 3" by simp
  have 1: "\<exists>final. last ?t = Persisted ?sp (asdict final)
               \<and> persisted_state ?sp ?t = Some final
               \<and> then_rcs final = Some (followup_codes ?lg ?t)"
    using o(1,2,3) codes by (intro exI[of _ final]) simp
  have 2: "3 < length ?t" using o(4) lenA by simp
  have 3: "\<forall>k. 3 \<le> k \<and> k < length ?t \<longrightarrow>
                persisted_state ?sp (take k ?t) = Some (st\<lparr>status := ''running''\<rparr>)
              \<and> then_rcs (st\<lparr>status := ''running''\<rparr>) = None
              \<and> length (followup_codes ?lg (take k ?t)) = k - 3"
    using o(5) lenA tr by (simp add: numeral_3_eq_3)
  show ?thesis unfolding Let_def using 1 2 3 by blast
qed

theorem followup_codes_persisted_at_chain_end_witness:
  "prepare example_host (example_args ''true'' [''true'', ''true'']) example_fs =
     Inr (example_state ''true'' [''true'', ''true''], [''w''], example_run_dir,
          example_prepared ''true'' [''true'', ''true''])
   \<and> \<not> arg_detach (example_args ''true'' [''true'', ''true''])
   \<and> shell example_host 0 ''true'' = 0
   \<and> (3::nat) \<le> 4
   \<and> 4 < length (trace (snd (main_orchestrate example_host (example_args ''true'' [''true'', ''true'']) example_fs)))
   \<and> persisted_state (example_run_dir @ [''state.json''])
        (take 4 (trace (snd (main_orchestrate example_host (example_args ''true'' [''true'', ''true'']) example_fs)))) =
       Some \<lparr>run_id = ''job_20240101_000000'', label = ''job'', workspace = ''/w'',
             created_at = ''2024-01-01T00:00:00'', status = ''running'', main_cmd = ''true'',
             then_cmds = [''true'', ''true''], main_pid = None, main_rc = None,
             then_rcs = None, error = None\<rparr>
   \<and> length (followup_codes (example_run_dir @ [''then.log''])
        (take 4 (trace (snd (main_orchestrate example_host (example_args ''true'' [''true'', ''true'']) example_fs))))) = 1"
proof -
  let ?a = "example_args ''true'' [''true'', ''true'']"
  let ?t = "trace (snd (main_orchestrate example_host ?a example_fs))"
  have nd: "\<not> arg_detach ?a" by (simp add: example_args_def)
  have s0: "shell example_host 0 (arg_cmd ?a) = 0" by (simp add: example_args_def example_shell)
  have len: "4 < length ?t" unfolding example_ok_trace by simp
  from followup_codes_persisted_at_chain_end[OF example_prepare nd s0]
  have "\<forall>k. 3 \<le> k \<and> k < length ?t \<longrightarrow>
          persisted_state (example_run_dir @ [''state.json'']) (take k ?t) =
            Some ((example_state ''true'' [''true'', ''true''])\<lparr>status := ''running''\<rparr>)
        \<and> length (followup_codes (example_run_dir @ [''then.log'']) (take k ?t)) = k - 3"
    unfolding Let_def by blast
  then have "3 \<le> (4::nat) \<and> 4 < length ?t \<longrightarrow>
          persisted_state (example_run_dir @ [''state.json'']) (take 4 ?t) =
            Some ((example_state ''true'' [''true'', ''true''])\<lparr>status := ''running''\<rparr>)
        \<and> length (followup_codes (example_run_dir @ [''then.log'']) (take 4 ?t)) = 4 - 3"
    by (rule spec)
  with len have "persisted_state (example_run_dir @ [''state.json'']) (take 4 ?t) =
            Some ((example_state ''true'' [''true'', ''true''])\<lparr>status := ''running''\<rparr>)
        \<and> length (followup_codes (example_run_dir @ [''then.log'']) (take 4 ?t)) = 4 - 3"
    by simp
  then show ?thesis
    using nd example_prepare len
    by (simp add: example_state_def example_args_def example_shell)
qed

text \<open>
  C1 as stated fails: with two follow-ups that both exit 0, a run stopped after its
  fourth event (the first follow-up has finished, the second has not started) has one
  finished follow-up with exit code 0, and the state file holds no follow-up exit code.
\<close>

theorem interrupted_chain_counterexample:
  "followup_codes (example_run_dir @ [''then.log''])
     (take 4 (trace (snd (main_orchestrate example_host (example_args ''true'' [''true'', ''true'']) example_fs)))) = [0]
   \<and> map_option then_rcs
       (persisted_state (example_run_dir @ [''state.json''])
          (take 4 (trace (snd (main_orchestrate example_host (example_args ''true'' [''true'', ''true'']) example_fs)))))
     = Some None"
  unfolding example_ok_trace
  by (simp add: persisted_state_def from_dict_asdict example_state_def)

text \<open>
  C4. Every write of the state store goes through \<open>write_json\<close>, which writes the whole
  document to the sibling \<open>tmp_path p\<close> in the same directory, closes it, and renames
  it over \<open>p\<close>. After each of its operations the target \<open>p\<close> holds what it held before
  (the first two) or the complete new document (after the rename); the unfinished file
  is only ever at the temporary path, which is gone at the end.
\<close>

theorem write_json_is_atomic_replace:
  "map (\<lambda>s. files s p) (write_json_steps p obj fsys) = [files fsys p, files fsys p, Some (Json_text obj)]
   \<and> map (\<lambda>s. files s (tmp_path p)) (write_json_steps p obj fsys) = [Some Not_json, Some (Json_text obj), None]
   \<and> map dirs (write_json_steps p obj fsys) = [dirs fsys, dirs fsys, dirs fsys]
   \<and> write_json p obj fsys = last (write_json_steps p obj fsys)
   \<and> butlast (tmp_path p) = butlast p \<and> tmp_path p \<noteq> p
   \<and> fs (do_write_json p obj pr) = write_json p obj (fs pr)"
  using tmp_path_neq[of p]
  by (simp add: write_json_steps_def write_json_def write_text_def replace_def Let_def
      tmp_path_sibling do_write_json_def)

text \<open>
  C10. With no workspace given (absent or empty) and \<^verbatim>\<open>git rev-parse\<close> failing or
  printing nothing, both programs end with the message \<open>not_in_repo\<close> and exit code 1.
  The orchestrator has then caused no event and left the file system as it was; the
  outcome of either program is the same on every file system. There is no other way
  to a workspace root: the current directory is never used.
\<close>

theorem no_workspace_outside_repository:
  assumes "\<not> truthy_str (arg_workspace a)"
    and "\<not> truthy_str (opt_workspace sa)"
    and "git_toplevel h = None \<or> map_option strip (git_toplevel h) = Some []"
  shows "main_orchestrate h a fsys =
           (Raised (SystemExit 1 not_in_repo), \<lparr>fs = fsys, trace = [], stdout = []\<rparr>)
       \<and> main_status h sa fsys' = (Raised (SystemExit 1 not_in_repo), [])
       \<and> exit_code (Raised (SystemExit 1 not_in_repo)) = 1"
proof -
  have "resolve_workspace_root h w = Inl (SystemExit 1 not_in_repo)" if "\<not> truthy_str w" for w
    using that assms(3) by (auto simp: resolve_workspace_root_def split: option.splits)
  then show ?thesis
    using assms(1,2) by (simp add: main_orchestrate_def prepare_def main_status_def)
qed

theorem no_workspace_outside_repository_witness:
  "\<not> truthy_str (arg_workspace ((example_args ''true'' [])\<lparr>arg_workspace := None\<rparr>))
   \<and> \<not> truthy_str (opt_workspace ((example_status_args None True)\<lparr>opt_workspace := None\<rparr>))
   \<and> git_toplevel example_host = None
   \<and> main_orchestrate example_host ((example_args ''true'' [])\<lparr>arg_workspace := None\<rparr>) example_fs =
       (Raised (SystemExit 1 not_in_repo), \<lparr>fs = example_fs, trace = [], stdout = []\<rparr>)
   \<and> main_status example_host ((example_status_args None True)\<lparr>opt_workspace := None\<rparr>) example_done_fs =
       (Raised (SystemExit 1 not_in_repo), [])"
proof -
  have a: "\<not> truthy_str (arg_workspace ((example_args ''true'' [])\<lparr>arg_workspace := None\<rparr>))"
    and b: "\<not> truthy_str (opt_workspace ((example_status_args None True)\<lparr>opt_workspace := None\<rparr>))"
    by (simp_all add: truthy_str_def)
  have g: "git_toplevel example_host = None" by (simp add: example_host_def)
  then have g': "git_toplevel example_host = None \<or> map_option strip (git_toplevel example_host) = Some []"
    by simp
  show ?thesis
    using no_workspace_outside_repository[OF a b g', of example_fs example_done_fs] a b g
    by simp
qed

text \<open>
  C5, as the code has it. Once the workspace root is resolved, the status program exits
  with code 2 exactly when it is given neither the most-recent flag nor a non-empty run
  identifier. Given both, it is not misuse: the flag wins and the run identifier is
  ignored.
\<close>

theorem status_requires_a_selector:
  assumes "resolve_workspace_root h (opt_workspace a) = Inr ws"
  shows "(exit_code (fst (main_status h a fsys)) = 2) = (\<not> opt_latest a \<and> \<not> truthy_str (opt_run_id a))
       \<and> (opt_latest a \<longrightarrow> main_status h a fsys = main_status h (a\<lparr>opt_run_id := None\<rparr>) fsys)"
proof -
  have rep: "exit_code (fst (report d j)) \<noteq> 2" for d j
    by (cases j) (simp_all add: report_def)
  have sr: "exit_code (fst (show_run b fsys rdir)) \<noteq> 2" for b rdir
    using rep by (simp add: show_run_def split: option.splits content.splits)
  have sr_eq: "show_run (a\<lparr>opt_run_id := None\<rparr>) fsys rdir = show_run a fsys rdir" for rdir
    by (simp add: show_run_def split: option.splits content.splits)
  show ?thesis
    using assms sr sr_eq by (simp add: main_status_def)
qed

theorem status_requires_a_selector_witness:
  "resolve_workspace_root example_host
     (opt_workspace (example_status_args (Some ''job_20240101_000000'') True)) = Inr [''w'']
   \<and> opt_latest (example_status_args (Some ''job_20240101_000000'') True)
   \<and> truthy_str (opt_run_id (example_status_args (Some ''job_20240101_000000'') True))
   \<and> exit_code (fst (main_status example_host (example_status_args (Some ''job_20240101_000000'') True)
        example_done_fs)) \<noteq> 2
   \<and> main_status example_host (example_status_args (Some ''job_20240101_000000'') True) example_done_fs =
     main_status example_host ((example_status_args (Some ''job_20240101_000000'') True)\<lparr>opt_run_id := None\<rparr>)
       example_done_fs"
proof -
  have l: "opt_latest (example_status_args (Some ''job_20240101_000000'') True)"
    and t: "truthy_str (opt_run_id (example_status_args (Some ''job_20240101_000000'') True))"
    by (simp_all add: example_status_args_def truthy_str_def)
  show ?thesis
    using status_requires_a_selector[OF example_status_root, of "Some ''job_20240101_000000''" True example_done_fs]
      l t example_status_root
    by blast
qed

text \<open>
  C5 as stated fails: with \<^verbatim>\<open>--latest\<close> and \<^verbatim>\<open>--run-id\<close> both given, the status program
  reports the latest run and returns 0.
\<close>

theorem both_selectors_counterexample:
  "main_status example_host (example_status_args (Some ''job_20240101_000000'') True) example_done_fs =
     (Returned 0,
      [Text ''run_id: job_20240101_000000'', Field ''label'' (JStr ''job''),
       Field ''status'' (JStr ''completed''), Field ''main_rc'' (JInt 0),
       Text ''logs: main.log / then.log / orchestrator.log''])
   \<and> exit_code (fst (main_status example_host (example_status_args (Some ''job_20240101_000000'') True)
        example_done_fs)) \<noteq> 2"
proof -
  have l: "opt_latest (example_status_args (Some ''job_20240101_000000'') True)"
    and j: "\<not> opt_json (example_status_args (Some ''job_20240101_000000'') True)"
    by (simp_all add: example_status_args_def)
  have d: "is_dir example_done_fs example_run_dir" by (simp add: is_dir_def example_done(1))
  have "main_status example_host (example_status_args (Some ''job_20240101_000000'') True) example_done_fs =
     (Returned 0,
      [Text ''run_id: job_20240101_000000'', Field ''label'' (JStr ''job''),
       Field ''status'' (JStr ''completed''), Field ''main_rc'' (JInt 0),
       Text ''logs: main.log / then.log / orchestrator.log''])"
    using l j d
    by (simp add: main_status_def example_status_root example_latest show_run_def example_done(2)
        report_def asdict_def dict_get_def example_state_def nullable_def)
       (simp add: example_run_dir_def path_name_def)
  then show ?thesis by simp
qed

text \<open>
  C2, at a failing input. A run directory whose \<^verbatim>\<open>state.json\<close> does not parse: the
  status program prints nothing and ends with the uncaught \<^verbatim>\<open>JSONDecodeError\<close> of
  \<^verbatim>\<open>json.loads\<close>, by run identifier and by \<^verbatim>\<open>--latest\<close> alike. When the file is absent
  it reports the missing state and returns 1.
\<close>

theorem corrupt_state_crashes_status:
  "main_status example_host (example_status_args (Some ''job_20240101_000000'') False) example_corrupt_fs =
     (Raised JSONDecodeError, [])
   \<and> main_status example_host (example_status_args None True) example_corrupt_fs =
     (Raised JSONDecodeError, [])
   \<and> main_status example_host (example_status_args None True) (example_corrupt_fs\<lparr>files := Map.empty\<rparr>) =
     (Returned 1, [Text ''(missing state.json in /w/.codex/longrun/job_20240101_000000)''])"
proof -
  have d: "is_dir example_corrupt_fs example_run_dir"
    "is_dir (example_corrupt_fs\<lparr>files := Map.empty\<rparr>) example_run_dir"
    by (simp_all add: is_dir_def example_corrupt_fs_def)
  have f: "files example_corrupt_fs (example_run_dir @ [''state.json'']) = Some Not_json"
    by (simp add: example_corrupt_fs_def)
  have sel: "\<not> opt_latest (example_status_args (Some ''job_20240101_000000'') False)"
    "truthy_str (opt_run_id (example_status_args (Some ''job_20240101_000000'') False))"
    "opt_run_id (example_status_args (Some ''job_20240101_000000'') False) = Some ''job_20240101_000000''"
    "opt_latest (example_status_args None True)"
    by (simp_all add: example_status_args_def truthy_str_def)
  have 1: "main_status example_host (example_status_args (Some ''job_20240101_000000'') False) example_corrupt_fs =
     (Raised JSONDecodeError, [])"
    using d f sel example_join
    by (simp add: main_status_def example_status_root show_run_def)
  have 2: "main_status example_host (example_status_args None True) example_corrupt_fs =
     (Raised JSONDecodeError, [])"
    using d f sel by (simp add: main_status_def example_status_root show_run_def example_corrupt_latest)
  have 3: "main_status example_host (example_status_args None True) (example_corrupt_fs\<lparr>files := Map.empty\<rparr>) =
     (Returned 1, [Text ''(missing state.json in /w/.codex/longrun/job_20240101_000000)''])"
    using d sel
    by (simp add: main_status_def example_status_root show_run_def example_missing_latest)
       (simp add: path_str_def example_run_dir_def)
  show ?thesis using 1 2 3 by blast
qed

text \<open>
  C3, at a failing input. A run is launched with \<^verbatim>\<open>--detach\<close>; its state file records
  the creation time of the launch. The background worker, started with
  \<^verbatim>\<open>LONGRUN_RUN_DIR\<close> set, first writes a new record stamped with its own clock over
  that file (its first event) and only then reloads it: the state file ends with the
  worker's \<open>created_at\<close>.
\<close>

theorem reattached_worker_rewrites_created_at:
  "map_sum id created_at (reload (example_run_dir @ [''state.json'']) example_detached_fs) =
     Inr ''2024-01-01T00:00:00''
   \<and> hd (trace (snd (main_orchestrate example_worker_host (example_args ''true'' []) example_detached_fs))) =
       Persisted (example_run_dir @ [''state.json''])
         (asdict ((example_state ''true'' [])\<lparr>created_at := ''2024-01-01T00:00:07''\<rparr>))
   \<and> map_sum id created_at
        (reload (example_run_dir @ [''state.json''])
           (fs (snd (main_orchestrate example_worker_host (example_args ''true'' []) example_detached_fs)))) =
       Inr ''2024-01-01T00:00:07''"
proof -
  let ?sp = "example_run_dir @ [''state.json'']"
  have ne: "?sp \<noteq> example_run_dir @ [''detached.json'']" by simp
  have net: "?sp \<noteq> tmp_path (example_run_dir @ [''detached.json''])"
    by (simp add: tmp_path_def path_name_def)
  have 1: "reload ?sp example_detached_fs = Inr (example_state ''true'' [])"
    unfolding example_detached_fs_def example_detached
    using ne net tmp_path_neq[of ?sp]
    by (simp add: reload_def files_write_json from_dict_asdict)
  have nd: "\<not> arg_detach (example_args ''true'' [])" by (simp add: example_args_def)
  have sh0: "shell example_worker_host 0 ''true'' = 0"
    by (simp add: example_worker_host_def example_host_def)
  have w: "main_orchestrate example_worker_host (example_args ''true'' []) example_detached_fs =
     run_chain example_worker_host example_run_dir
       ((example_state ''true'' [])\<lparr>created_at := ''2024-01-01T00:00:07''\<rparr>)
       (do_write_json ?sp
            (asdict ((example_state ''true'' [])\<lparr>created_at := ''2024-01-01T00:00:07''\<rparr>))
            \<lparr>fs = example_detached_fs, trace = [], stdout = []\<rparr>)"
    by (rule main_is_run_chain[OF example_worker_prepare nd])
  have 2: "hd (trace (snd (main_orchestrate example_worker_host (example_args ''true'' []) example_detached_fs))) =
       Persisted ?sp (asdict ((example_state ''true'' [])\<lparr>created_at := ''2024-01-01T00:00:07''\<rparr>))"
    unfolding w using sh0
    by (simp add: run_chain_def run_shell_def Let_def do_write_json_def example_state_def)
  have 3: "reload ?sp (fs (snd (main_orchestrate example_worker_host (example_args ''true'' []) example_detached_fs))) =
     Inr ((example_state ''true'' [])\<lparr>created_at := ''2024-01-01T00:00:07'', status := ''running'',
        main_rc := Some 0, then_rcs := Some [], status := ''completed''\<rparr>)"
    unfolding w using sh0
    by (simp add: run_chain_def run_shell_def Let_def do_write_json_def example_state_def
        reload_write_json)
  show ?thesis using 1 2 3 by (simp add: example_state_def)
qed

text \<open>
  C9, at a failing input. Two runs allocated by \<open>make_run_dir\<close>, label \<^verbatim>\<open>b\<close> in 2024
  and then label \<^verbatim>\<open>a\<close> in 2025: \<open>latest_run_dir\<close> answers the run of 2024, whose name
  is the greater one.
\<close>

theorem latest_picks_greatest_name_not_newest_run:
  "make_run_dir (example_host\<lparr>now_tag := ''20240101_000000''\<rparr>) [''w''] ''b'' example_fs =
     Inr ([''w'', ''.codex'', ''longrun'', ''b_20240101_000000''],
          \<lparr>dirs = [[''w''], [''w'', ''.codex''], [''w'', ''.codex'', ''longrun''],
                   [''w'', ''.codex'', ''longrun'', ''b_20240101_000000'']],
           files = Map.empty\<rparr>)
   \<and> make_run_dir (example_host\<lparr>now_tag := ''20250101_000000''\<rparr>) [''w''] ''a''
        \<lparr>dirs = [[''w''], [''w'', ''.codex''], [''w'', ''.codex'', ''longrun''],
                 [''w'', ''.codex'', ''longrun'', ''b_20240101_000000'']],
         files = Map.empty\<rparr> =
     Inr ([''w'', ''.codex'', ''longrun'', ''a_20250101_000000''], two_runs_fs)
   \<and> latest_run_dir two_runs_fs [''w''] = Some [''w'', ''.codex'', ''longrun'', ''b_20240101_000000'']"
proof -
  have 1: "make_run_dir (example_host\<lparr>now_tag := ''20240101_000000''\<rparr>) [''w''] ''b'' example_fs =
     Inr ([''w'', ''.codex'', ''longrun'', ''b_20240101_000000''],
          \<lparr>dirs = [[''w''], [''w'', ''.codex''], [''w'', ''.codex'', ''longrun''],
                   [''w'', ''.codex'', ''longrun'', ''b_20240101_000000'']],
           files = Map.empty\<rparr>)"
    by (simp add: make_run_dir_def example_host_def example_fs_def mkdir_def is_dir_def is_file_def
        ancestors_def joinpath_def parts_def upt_rec Let_def)
  have 2: "make_run_dir (example_host\<lparr>now_tag := ''20250101_000000''\<rparr>) [''w''] ''a''
        \<lparr>dirs = [[''w''], [''w'', ''.codex''], [''w'', ''.codex'', ''longrun''],
                 [''w'', ''.codex'', ''longrun'', ''b_20240101_000000'']],
         files = Map.empty\<rparr> =
     Inr ([''w'', ''.codex'', ''longrun'', ''a_20250101_000000''], two_runs_fs)"
    by (simp add: make_run_dir_def example_host_def two_runs_fs_def mkdir_def is_dir_def is_file_def
        ancestors_def joinpath_def parts_def upt_rec Let_def)
  have 3: "latest_run_dir two_runs_fs [''w''] = Some [''w'', ''.codex'', ''longrun'', ''b_20240101_000000'']"
    by code_simp
  show ?thesis using 1 2 3 by blast
qed

end
